theory Spec2Isabelle
  imports
    Complex_Main
    "HOL-Library.List_Lexorder"
    "HOL-Library.Product_Lexorder"
    "HOL-Library.Multiset"
    "HOL-Library.Sublist"
begin

chapter \<open>The embedding\<close>

section \<open>Values and exceptions\<close>

text \<open>
  A numpy \<open>float64\<close>: not-a-number, the two infinities, or a finite value. Finite
  values are read as reals; rounding is not modelled, comparisons are IEEE comparisons
  (every comparison with \<open>NaN\<close> is false).
\<close>

datatype float64 = NaN | NInf | Fin real | PInf

text \<open>The exceptions the modelled functions can raise.\<close>

datatype exn = ValueError | IndexError | TypeError | FileNotFoundError | OSError

definition isnan :: "float64 \<Rightarrow> bool" where
  "isnan x = (x = NaN)"

text \<open>\<open>fge a b\<close> is Python's \<open>a >= b\<close>, \<open>fgt a b\<close> is \<open>a > b\<close>, \<open>fsub a b\<close> is \<open>a - b\<close>.\<close>

fun fge :: "float64 \<Rightarrow> float64 \<Rightarrow> bool" where
  "fge NaN _ = False"
| "fge _ NaN = False"
| "fge PInf _ = True"
| "fge _ NInf = True"
| "fge (Fin a) (Fin b) = (b \<le> a)"
| "fge _ _ = False"

fun fgt :: "float64 \<Rightarrow> float64 \<Rightarrow> bool" where
  "fgt NaN _ = False"
| "fgt _ NaN = False"
| "fgt _ PInf = False"
| "fgt NInf _ = False"
| "fgt (Fin a) (Fin b) = (b < a)"
| "fgt _ _ = True"


text \<open>
  A raised exception is the left injection of a sum; \<open>ebind\<close> sequences two steps,
  \<open>efold\<close> is a \<open>for\<close> loop over a list that stops at the first exception, \<open>emap\<close> a
  list comprehension whose element expression may raise.
\<close>

definition ebind :: "exn + 'a \<Rightarrow> ('a \<Rightarrow> exn + 'b) \<Rightarrow> exn + 'b" where
  "ebind m f = (case m of Inl e \<Rightarrow> Inl e | Inr x \<Rightarrow> f x)"

fun efold :: "('a \<Rightarrow> 'b \<Rightarrow> exn + 'b) \<Rightarrow> 'a list \<Rightarrow> 'b \<Rightarrow> exn + 'b" where
  "efold f [] acc = Inr acc"
| "efold f (x # xs) acc = ebind (f x acc) (efold f xs)"

fun emap :: "('a \<Rightarrow> exn + 'b) \<Rightarrow> 'a list \<Rightarrow> exn + 'b list" where
  "emap f [] = Inr []"
| "emap f (x # xs) = ebind (f x) (\<lambda>y. ebind (emap f xs) (\<lambda>ys. Inr (y # ys)))"

text \<open>
  Indexing: \<open>py_get\<close> for an index known to be non-negative, \<open>py_index\<close> for a Python
  integer (negative indices count from the end), \<open>py_slice xs i j\<close> for \<open>xs[i:j]\<close>.
  \<open>py_int\<close> is \<open>int(x)\<close> on a finite float: truncation towards zero.
\<close>

definition py_get :: "'a list \<Rightarrow> nat \<Rightarrow> exn + 'a" where
  "py_get xs i = (if i < length xs then Inr (xs ! i) else Inl IndexError)"

definition py_index :: "'a list \<Rightarrow> int \<Rightarrow> exn + 'a" where
  "py_index xs i =
     (if 0 \<le> i \<and> i < int (length xs) then Inr (xs ! nat i)
      else if i < 0 \<and> - int (length xs) \<le> i then Inr (xs ! nat (int (length xs) + i))
      else Inl IndexError)"

definition py_slice :: "'a list \<Rightarrow> int \<Rightarrow> int \<Rightarrow> 'a list" where
  "py_slice xs i j =
     (let n = int (length xs);
          clamp = (\<lambda>k. if k < 0 then max 0 (n + k) else min k n);
          a = clamp i;
          b = clamp j
      in take (nat (b - a)) (drop (nat a) xs))"

definition py_int :: "real \<Rightarrow> int" where
  "py_int x = (if 0 \<le> x then \<lfloor>x\<rfloor> else \<lceil>x\<rceil>)"

section \<open>Correlation matcher (\<open>stitching/stitch_neurons.py\<close>, \<open>_pairwise_corr\<close>)\<close>

text \<open>Boolean-mask indexing \<open>a[valid]\<close>.\<close>

definition mask_select :: "'a list \<Rightarrow> bool list \<Rightarrow> 'a list" where
  "mask_select xs m = map fst (filter snd (zip xs m))"

text \<open>
  \<open>_pairwise_corr(a, b)\<close>. The first argument stands for numpy's
  \<open>np.corrcoef(x, y)[0, 1]\<close>, a library function outside the repository.
\<close>

definition pairwise_corr ::
  "(float64 list \<Rightarrow> float64 list \<Rightarrow> float64) \<Rightarrow> float64 list \<Rightarrow> float64 list \<Rightarrow> float64" where
  "pairwise_corr corrcoef a b =
     (let min_len = min (length a) (length b) in
      if min_len = 0 then NaN
      else
        let a' = take min_len a;
            b' = take min_len b;
            valid = map2 (\<lambda>x y. \<not> (isnan x \<or> isnan y)) a' b'
        in if length (filter (\<lambda>v. v) valid) < 2 then NaN
           else corrcoef (mask_select a' valid) (mask_select b' valid))"

text \<open>
  The valid paired samples in the words of the specification: both vectors are cut to the
  shorter length, and the positions where either value is NaN are dropped.
\<close>

definition paired_samples :: "float64 list \<Rightarrow> float64 list \<Rightarrow> (float64 \<times> float64) list" where
  "paired_samples a b =
     (let n = min (length a) (length b)
      in filter (\<lambda>(x, y). x \<noteq> NaN \<and> y \<noteq> NaN) (zip (take n a) (take n b)))"

section \<open>Stitching engine (\<open>stitching/stitch_neurons.py\<close>, \<open>NeuronStitcher\<close>)\<close>

text \<open>
  \<open>np.nan_to_num(x, nan=-np.inf)\<close> on one element: NaN becomes \<open>-inf\<close>, and numpy's
  defaults replace the infinities of the input by the largest and smallest finite
  \<open>float64\<close>.
\<close>

definition max_float :: real where
  "max_float = (2 - 1 / 2 ^ 52) * 2 ^ 1023"

fun nan_to_num :: "float64 \<Rightarrow> float64" where
  "nan_to_num NaN = NInf"
| "nan_to_num PInf = Fin max_float"
| "nan_to_num NInf = Fin (- max_float)"
| "nan_to_num (Fin x) = Fin x"

text \<open>
  \<open>np.argmax\<close>: the index of the first maximum, scanning from the left; a NaN, once
  met, stays the maximum. An empty array raises.
\<close>

fun argmax_scan :: "nat \<Rightarrow> float64 \<Rightarrow> nat \<Rightarrow> float64 list \<Rightarrow> nat" where
  "argmax_scan bi bv i [] = bi"
| "argmax_scan bi bv i (x # xs) =
     (if isnan bv then bi
      else if isnan x \<or> fgt x bv then argmax_scan i x (Suc i) xs
      else argmax_scan bi bv (Suc i) xs)"

definition argmax :: "float64 list \<Rightarrow> exn + nat" where
  "argmax xs = (case xs of [] \<Rightarrow> Inl ValueError | x # rest \<Rightarrow> Inr (argmax_scan 0 x 1 rest))"

text \<open>
  What the stitcher reads from disk. \<open>npclu_files rec flag\<close> is the NPclu file of a
  recording for a group flag (HDF5 first, then MATLAB). An HDF5 file, as \<open>write_npclu_h5\<close>
  writes it, holds the tables \<open>clu_info\<close> and \<open>ks_clu_info\<close> and perhaps \<open>iso_clu_info\<close>,
  each a list of rows (cluster id, channel index); in a MATLAB file each of the three
  variables may be absent. \<open>load_ks_dir name\<close> is the channel map of the Kilosort output
  directory of the recording name, or the exception that \<open>load_ks_dir\<close> raises there (a
  missing directory or file); \<open>elec_num\<close> is the electrode table of
  \<open>get_np_chan_depth_info\<close> (empty when unavailable); \<open>get_waveform\<close> and
  \<open>get_firing_rate\<close> are the per-unit feature lookups, which return a NaN-filled array
  when the unit's file is missing (a lookup that raises ends the run and is no value of
  these functions).
\<close>

datatype npclu_file =
    NoFile
  | H5File "(int \<times> int) list" "(int \<times> int) list" "(int \<times> int) list option"
  | MatFile "(int \<times> int) list option" "(int \<times> int) list option" "(int \<times> int) list option"

record world =
  data_root_exists :: bool
  npclu_files :: "string \<Rightarrow> string \<Rightarrow> npclu_file"
  load_ks_dir :: "string \<Rightarrow> exn + nat list"
  elec_num :: "int list"
  get_waveform :: "int \<Rightarrow> string \<Rightarrow> float64 list"
  get_firing_rate :: "int \<Rightarrow> string \<Rightarrow> float64 list"

text \<open>
  The table selected for a recording: \<open>Rows\<close> is an array of shape \<open>(N, 2)\<close>, \<open>NoColumns\<close>
  an array of shape \<open>(1, 0)\<close>. \<open>load_mat\<close> reads a MATLAB file with \<open>squeeze_me=True\<close>,
  which turns an empty variable into an array of shape \<open>(0,)\<close> (and a single row into
  shape \<open>(2,)\<close>); \<open>np.atleast_2d\<close> then makes \<open>(1, 0)\<close> of the former and restores the
  latter: \<open>mat_array\<close> is \<open>np.atleast_2d\<close> of a variable that \<open>load_mat\<close> returned, and
  \<open>mat_table\<close> is \<open>np.atleast_2d(data.get(key, np.empty((0, 2))))\<close>.
\<close>

datatype info_array = Rows "(int \<times> int) list" | NoColumns

definition mat_array :: "(int \<times> int) list \<Rightarrow> info_array" where
  "mat_array rows = (if rows = [] then NoColumns else Rows rows)"

definition mat_table :: "(int \<times> int) list option \<Rightarrow> info_array" where
  "mat_table var = (case var of None \<Rightarrow> Rows [] | Some rows \<Rightarrow> mat_array rows)"

text \<open>\<open>StitchingConfig\<close>, the part of the configuration that the stitcher reads.\<close>

record stitching_config =
  fr_corr_threshold :: float64
  wf_corr_threshold :: float64
  min_recordings :: int
  channel_range :: int

text \<open>\<open>rec_name_str\<close> and \<open>group_flag_str\<close> of \<open>utils/paths.py\<close>; \<open>join_recs\<close> is
  \<open>"_".join(recs)\<close>.\<close>

fun join_recs :: "string list \<Rightarrow> string" where
  "join_recs [] = []"
| "join_recs [r] = r"
| "join_recs (r # r' # rs) = r @ ''_'' @ join_recs (r' # rs)"

definition rec_name_str :: "string list \<Rightarrow> bool \<Rightarrow> exn + string" where
  "rec_name_str rs grp = (if grp then Inr (join_recs rs) else py_get rs 0)"

definition group_flag_str :: "bool \<Rightarrow> string" where
  "group_flag_str grp = (if grp then ''Grouped'' else ''NotGrouped'')"

text \<open>The fields of a \<open>NeuronStitcher\<close>; \<open>new_stitcher\<close> is its \<open>__init__\<close>, which raises
  when \<open>rec_name_str\<close> does (no recording and \<open>grouped = False\<close>). The day, the tower and
  the probe number only name files; \<open>world\<close> holds the files of one session.\<close>

record stitcher =
  recs :: "string list"
  grouped :: bool
  cluster_type :: string
  fr_threshold :: float64
  wf_threshold :: float64
  min_recs :: int
  chan_range :: int
  gflag :: string
  rec_str :: string
  clu_info_per_rec :: "(int \<times> int) list list"
  chan_map :: "nat list option"
  uni_chans :: "nat list"

definition new_stitcher ::
  "stitching_config \<Rightarrow> string list \<Rightarrow> bool \<Rightarrow> string \<Rightarrow> exn + stitcher" where
  "new_stitcher cfg rs grp ct =
     ebind (rec_name_str rs grp) (\<lambda>name.
       Inr \<lparr>recs = rs, grouped = grp, cluster_type = ct,
            fr_threshold = fr_corr_threshold cfg, wf_threshold = wf_corr_threshold cfg,
            min_recs = min_recordings cfg, chan_range = channel_range cfg,
            gflag = group_flag_str grp, rec_str = name,
            clu_info_per_rec = [], chan_map = None, uni_chans = []\<rparr>)"

definition num_recs :: "stitcher \<Rightarrow> nat" where
  "num_recs s = length (recs s)"

text \<open>\<open>np.where(self.chan_map == c)\<close> and \<open>len(self.chan_map)\<close> read the map; before it
  is loaded the comparison matches nothing.\<close>

definition the_chan_map :: "stitcher \<Rightarrow> nat list" where
  "the_chan_map s = (case chan_map s of None \<Rightarrow> [] | Some m \<Rightarrow> m)"

text \<open>\<open>MindSnagConfig.validate\<close>: the only check is that the data root exists.\<close>

definition validate :: "world \<Rightarrow> exn + unit" where
  "validate w = (if data_root_exists w then Inr () else Inl FileNotFoundError)"

text \<open>
  \<open>_load_cluster_info\<close>: the file lookup and the cluster-type selection of one recording
  (lines 108 to 144), then the body of the loop over the recordings, then the whole
  method. In the body the channel map is loaded once, by \<open>load_ks_dir\<close>, which may raise;
  then \<open>selected_info[:, 1]\<close> is read when \<open>len(selected_info) > 0\<close>, which raises on an
  array of shape \<open>(1, 0)\<close>. Such an array is appended to \<open>clu_info_per_rec\<close> like any
  other (line 146), but then the run ends with an exception and the state is not used
  again, so \<open>clu_info_per_rec\<close> holds lists of rows only.
\<close>

definition select_info :: "string \<Rightarrow> npclu_file \<Rightarrow> exn + info_array" where
  "select_info ct f =
     (case f of
        NoFile \<Rightarrow> Inl FileNotFoundError
      | H5File clu_info ks_clu_info iso_clu_info \<Rightarrow>
          (if ct = ''All'' then Inr (Rows clu_info)
           else if ct = ''Good'' then Inr (Rows ks_clu_info)
           else if ct = ''Isolated'' then
             (case iso_clu_info of None \<Rightarrow> Inl ValueError | Some i \<Rightarrow> Inr (Rows i))
           else Inl ValueError)
      | MatFile clu_info ks_clu_info iso_clu_info \<Rightarrow>
          (if ct = ''All'' then Inr (mat_table clu_info)
           else if ct = ''Good'' then Inr (mat_table ks_clu_info)
           else if ct = ''Isolated'' then
             (case iso_clu_info of None \<Rightarrow> Inl ValueError | Some i \<Rightarrow> Inr (mat_array i))
           else Inl ValueError))"

definition load_chan_map :: "world \<Rightarrow> stitcher \<Rightarrow> exn + stitcher" where
  "load_chan_map w s =
     (case chan_map s of
        None \<Rightarrow> ebind (load_ks_dir w (rec_str s)) (\<lambda>m. Inr (s\<lparr>chan_map := Some m\<rparr>))
      | Some m \<Rightarrow> Inr s)"

definition load_rec ::
  "world \<Rightarrow> string \<Rightarrow> stitcher \<times> nat list list \<Rightarrow> exn + stitcher \<times> nat list list" where
  "load_rec w rec st =
     (case st of (s, all_iso_chans) \<Rightarrow>
        ebind (select_info (cluster_type s) (npclu_files w rec (gflag s))) (\<lambda>selected_info.
          case selected_info of
            NoColumns \<Rightarrow> ebind (load_chan_map w s) (\<lambda>_. Inl IndexError)
          | Rows info \<Rightarrow>
              let s1 = s\<lparr>clu_info_per_rec := clu_info_per_rec s @ [info]\<rparr>
              in ebind (load_chan_map w s1) (\<lambda>s2.
                   let cm = the_chan_map s2;
                       chan_indices = map snd info;
                       valid = filter (\<lambda>ci. 0 \<le> ci \<and> ci < int (length cm)) chan_indices;
                       iso_chans = map (\<lambda>ci. cm ! nat ci) valid
                   in Inr (s2, all_iso_chans @ [iso_chans]))))"

definition load_cluster_info :: "world \<Rightarrow> stitcher \<Rightarrow> exn + stitcher" where
  "load_cluster_info w s =
     ebind (efold (load_rec w) (recs s) (s, []))
       (\<lambda>(s', all_iso_chans). Inr (s'\<lparr>uni_chans := sort (remdups (concat all_iso_chans))\<rparr>))"

text \<open>\<open>_get_cluster_ids\<close> and \<open>_get_within_range_channels\<close>.\<close>

definition get_cluster_ids :: "stitcher \<Rightarrow> nat \<Rightarrow> exn + int list list" where
  "get_cluster_ids s channel_id =
     (let cm = the_chan_map s;
          chan_ind = filter (\<lambda>i. cm ! i = channel_id) [0..<length cm]
      in efold (\<lambda>i_r result.
                  ebind (py_get (clu_info_per_rec s) i_r) (\<lambda>info.
                    if info = [] \<or> chan_ind = [] then Inr (result @ [[]])
                    else Inr (result @
                      [map fst (filter (\<lambda>(c, ch). ch \<in> int ` set chan_ind) info)])))
           [0..<num_recs s] [])"

definition get_within_range_channels :: "world \<Rightarrow> stitcher \<Rightarrow> nat \<Rightarrow> nat list" where
  "get_within_range_channels w s selected_channel =
     (let en = elec_num w in
      if en = [] \<or> length en \<le> selected_channel then [selected_channel]
      else
        let corr_elec = en ! selected_channel
        in filter (\<lambda>i. corr_elec - chan_range s \<le> en ! i \<and> en ! i < corr_elec + chan_range s + 1)
             [0..<length en])"

text \<open>
  The body of \<open>_run_stitching\<close>, loop by loop. \<open>gather_nearby\<close> is the loop over
  \<open>nearby_chans\<close>: it appends, per recording, the ids, waveforms and firing rates of the
  units found on each nearby channel (the innermost loop appends the units of
  \<open>cluster_ids[i_rec]\<close> one by one; here they are appended at once).
\<close>

definition gather_nearby ::
  "world \<Rightarrow> stitcher \<Rightarrow> nat list \<Rightarrow>
     exn + int list list \<times> float64 list list list \<times> float64 list list list" where
  "gather_nearby w s nearby_chans =
     efold
       (\<lambda>ch (all_cluster_ids, all_wfs, all_rates).
          case chan_map s of
            None \<Rightarrow> Inl TypeError
          | Some cm \<Rightarrow>
              if length cm \<le> ch then Inr (all_cluster_ids, all_wfs, all_rates)
              else
                ebind (get_cluster_ids s (cm ! ch)) (\<lambda>cluster_ids.
                  efold
                    (\<lambda>i_rec (ids, wfs, rates).
                       ebind (py_get cluster_ids i_rec) (\<lambda>cs.
                         Inr (ids[i_rec := ids ! i_rec @ cs],
                              wfs[i_rec := wfs ! i_rec @
                                     map (\<lambda>c. get_waveform w c (recs s ! i_rec)) cs],
                              rates[i_rec := rates ! i_rec @
                                     map (\<lambda>c. get_firing_rate w c (recs s ! i_rec)) cs])))
                    [0..<num_recs s] (all_cluster_ids, all_wfs, all_rates)))
       nearby_chans
       (replicate (num_recs s) [], replicate (num_recs s) [], replicate (num_recs s) [])"

text \<open>
  The body of \<open>for other_rec in other_recs\<close> (lines 295 to 315), acting on the row
  \<open>stitched\<close>; a missing entry (NaN) of a row is \<open>None\<close>. Python's \<open>and\<close> evaluates the
  waveform comparison only when the firing-rate comparison holds.
\<close>

definition stitch_other_rec ::
  "(float64 list \<Rightarrow> float64 list \<Rightarrow> float64) \<Rightarrow> stitcher \<Rightarrow> float64 list \<Rightarrow> float64 list \<Rightarrow>
   int list list \<Rightarrow> float64 list list list \<Rightarrow> float64 list list list \<Rightarrow>
   nat \<Rightarrow> int option list \<Rightarrow> exn + int option list" where
  "stitch_other_rec cc s fr wform all_cluster_ids all_wfs all_rates other_rec stitched =
     ebind (py_get all_cluster_ids other_rec) (\<lambda>other_ids.
       if other_ids = [] then Inr stitched
       else
         ebind (py_get all_wfs other_rec) (\<lambda>other_wfs.
         ebind (py_get all_rates other_rec) (\<lambda>other_rates.
           let fr_corrs = map (pairwise_corr cc fr) other_rates;
               wf_corrs = map (pairwise_corr cc wform) other_wfs;
               fr_corrs' = map nan_to_num fr_corrs
           in ebind (argmax fr_corrs') (\<lambda>best_idx.
                ebind (py_get fr_corrs' best_idx) (\<lambda>best_fr.
                  if fge best_fr (fr_threshold s) then
                    ebind (py_get wf_corrs best_idx) (\<lambda>best_wf.
                      if fge best_wf (wf_threshold s) then
                        ebind (py_get other_ids best_idx) (\<lambda>best_id.
                          Inr (stitched[other_rec := Some best_id]))
                      else Inr stitched)
                  else Inr stitched)))))"

text \<open>
  The body of \<open>for clu_id in current_clu_ids[i_rec]\<close> (lines 287 to 317): the row emitted
  for one unit.
\<close>

definition stitch_unit_row ::
  "(float64 list \<Rightarrow> float64 list \<Rightarrow> float64) \<Rightarrow> world \<Rightarrow> stitcher \<Rightarrow>
   int list list \<Rightarrow> float64 list list list \<Rightarrow> float64 list list list \<Rightarrow>
   nat \<Rightarrow> int \<Rightarrow> exn + int option list" where
  "stitch_unit_row cc w s all_cluster_ids all_wfs all_rates i_rec clu_id =
     ebind (py_get (recs s) i_rec) (\<lambda>rec.
       let fr = get_firing_rate w clu_id rec;
           wform = get_waveform w clu_id rec;
           stitched = (replicate (num_recs s) None)[i_rec := Some clu_id];
           other_recs = filter (\<lambda>r. r \<noteq> i_rec) [0..<num_recs s]
       in efold (stitch_other_rec cc s fr wform all_cluster_ids all_wfs all_rates)
            other_recs stitched)"

text \<open>
  The body of \<open>for current_chan in self.uni_chans\<close>, acting on \<open>prediction_list\<close>.
\<close>

definition stitch_channel ::
  "(float64 list \<Rightarrow> float64 list \<Rightarrow> float64) \<Rightarrow> world \<Rightarrow> stitcher \<Rightarrow>
   nat \<Rightarrow> int option list list \<Rightarrow> exn + int option list list" where
  "stitch_channel cc w s current_chan prediction_list =
     ebind (gather_nearby w s (get_within_range_channels w s current_chan))
       (\<lambda>(all_cluster_ids, all_wfs, all_rates).
          ebind (get_cluster_ids s current_chan) (\<lambda>current_clu_ids.
            efold
              (\<lambda>i_rec pl.
                 ebind (py_get current_clu_ids i_rec) (\<lambda>clus.
                   efold
                     (\<lambda>clu_id pl'.
                        ebind (stitch_unit_row cc w s all_cluster_ids all_wfs all_rates
                                 i_rec clu_id)
                          (\<lambda>stitched. Inr (pl' @ [stitched])))
                     clus pl))
              [0..<num_recs s] prediction_list))"



text \<open>
  Deduplication (lines 323 to 328). \<open>nan_to_zero\<close> is \<open>dedup[np.isnan(dedup)] = 0\<close> on one
  row; \<open>unique_index\<close> is the index array of \<open>np.unique(dedup, axis=0, return_index=True)\<close>:
  the unique rows in lexicographic order, each with the index of its first occurrence;
  \<open>dedup_rows\<close> is \<open>stitch_array[np.sort(unique_idx)]\<close>.
\<close>

definition nan_to_zero :: "int option list \<Rightarrow> int list" where
  "nan_to_zero row = map (\<lambda>x. case x of None \<Rightarrow> 0 | Some v \<Rightarrow> v) row"

definition first_index :: "'a list \<Rightarrow> 'a \<Rightarrow> nat" where
  "first_index xs x = length (takeWhile (\<lambda>y. y \<noteq> x) xs)"

definition unique_index :: "int list list \<Rightarrow> nat list" where
  "unique_index keys = map (first_index keys) (sort (remdups keys))"

definition dedup_rows :: "int option list list \<Rightarrow> int option list list" where
  "dedup_rows stitch_array =
     (let dedup = map nan_to_zero stitch_array;
          unique_idx = unique_index dedup
      in map (\<lambda>i. stitch_array ! i) (sort unique_idx))"

text \<open>
  The filter by minimum recording count (lines 330 to 332).
\<close>

definition valid_count :: "int option list \<Rightarrow> nat" where
  "valid_count row = length (filter (\<lambda>x. x \<noteq> None) row)"

definition filter_min_recs :: "int \<Rightarrow> int option list list \<Rightarrow> int option list list" where
  "filter_min_recs m unique_stitch = filter (\<lambda>row. m \<le> int (valid_count row)) unique_stitch"

text \<open>
  \<open>_run_stitching\<close> and \<open>run\<close> (the result is the stitch table).
\<close>

definition run_stitching ::
  "(float64 list \<Rightarrow> float64 list \<Rightarrow> float64) \<Rightarrow> world \<Rightarrow> stitcher \<Rightarrow> exn + int option list list" where
  "run_stitching cc w s =
     ebind (efold (stitch_channel cc w s) (uni_chans s) []) (\<lambda>prediction_list.
       if prediction_list = [] then Inr []
       else Inr (filter_min_recs (min_recs s) (dedup_rows prediction_list)))"

definition run ::
  "(float64 list \<Rightarrow> float64 list \<Rightarrow> float64) \<Rightarrow> world \<Rightarrow> stitcher \<Rightarrow> exn + int option list list" where
  "run cc w s =
     ebind (validate w) (\<lambda>_.
       ebind (load_cluster_info w s) (\<lambda>s'. run_stitching cc w s'))"


section \<open>PSTH estimator (\<open>utils/psth.py\<close>) and RT sorting (\<open>utils/sorting_utils.py\<close>)\<close>

text \<open>
  \<open>np.histogram(xx, bins=n, range=(lo, hi))[0]\<close> on finite samples: \<open>n\<close> equal-width
  bins over the range (widened by one half on each side when \<open>lo = hi\<close>), the last bin
  closed on the right. \<open>np.convolve(a, v)\<close> is the full discrete convolution, which
  raises on an empty operand.
\<close>

definition histogram :: "real list \<Rightarrow> nat \<Rightarrow> real \<Rightarrow> real \<Rightarrow> exn + nat list" where
  "histogram xx bins lo hi =
     (if bins < 1 then Inl ValueError
      else if hi < lo then Inl ValueError
      else
        let first_edge = (if lo = hi then lo - 1 / 2 else lo);
            last_edge = (if lo = hi then hi + 1 / 2 else hi);
            bin_of = (\<lambda>x. if x = last_edge then bins - 1
                           else nat \<lfloor>(x - first_edge) * real bins / (last_edge - first_edge)\<rfloor>)
        in Inr (map (\<lambda>k. length (filter (\<lambda>x. first_edge \<le> x \<and> x \<le> last_edge \<and> bin_of x = k) xx))
                  [0..<bins]))"

definition convolve :: "real list \<Rightarrow> real list \<Rightarrow> exn + real list" where
  "convolve a v =
     (if a = [] \<or> v = [] then Inl ValueError
      else Inr (map (\<lambda>k. sum_list (map (\<lambda>j. if j \<le> k \<and> k - j < length v
                                              then a ! j * v ! (k - j) else 0)
                                       [0..<length a]))
                  [0..<length a + length v - 1]))"

text \<open>
  \<open>psth(spike_cell, bn, smoothing)\<close>. The first argument stands for scipy's
  \<open>norm.pdf(x, 0, smoothing)\<close>, a library function outside the repository. Spike times
  and the smoothing width are finite floats, read as reals.
\<close>

definition psth ::
  "(real \<Rightarrow> real \<Rightarrow> real) \<Rightarrow> real list list \<Rightarrow> int \<times> int \<Rightarrow> real \<Rightarrow> exn + real list \<times> nat" where
  "psth norm_pdf spike_cell bn smoothing =
     (let n_tr = length spike_cell in
      if n_tr = 0 then
        (if snd bn - fst bn + 1 < 0 then Inl ValueError
         else Inr (replicate (nat (snd bn - fst bn + 1)) 0, 0))
      else
        let start = fst bn;
            stop = snd bn;
            time_bins = map real_of_int [start..stop];
            all_spikes = filter (\<lambda>spikes. spikes \<noteq> []) spike_cell;
            xx = concat all_spikes
        in ebind (histogram xx (length time_bins) (real_of_int start) (real_of_int stop)) (\<lambda>z.
             let half_width = py_int (3 * smoothing);
                 kernel_x = map real_of_int [- half_width..half_width];
                 window = map (\<lambda>x. norm_pdf x smoothing) kernel_x
             in ebind (convolve (map real z) window) (\<lambda>c.
                  let rate = map (\<lambda>v. (1000 / real n_tr) * v) c
                  in Inr (py_slice rate half_width (half_width + int (length time_bins)),
                          n_tr))))"

text \<open>
  scipy's \<open>norm.pdf(x, 0, sd)\<close> itself: the density of the normal distribution with mean 0
  and standard deviation \<open>sd\<close>.
\<close>

definition normal_pdf :: "real \<Rightarrow> real \<Rightarrow> real" where
  "normal_pdf x sd = exp (- ((x / sd) ^ 2) / 2) / (sd * sqrt (2 * pi))"

text \<open>
  \<open>np.argsort(rt)\<close> orders the indices by value, NaN last. numpy's default sort is not
  stable, so the order among equal values is one choice of several; the model takes the
  stable one.
\<close>

fun sort_rank :: "float64 \<Rightarrow> nat \<times> real" where
  "sort_rank NInf = (0, 0)"
| "sort_rank (Fin x) = (1, x)"
| "sort_rank PInf = (2, 0)"
| "sort_rank NaN = (3, 0)"

definition argsort :: "float64 list \<Rightarrow> nat list" where
  "argsort rt = sort_key (\<lambda>i. sort_rank (rt ! i)) [0..<length rt]"

text \<open>\<open>sort_spikes_by_rt(rt, spike_cell)\<close>.\<close>

definition sort_spikes_by_rt ::
  "float64 list \<Rightarrow> 'a list \<Rightarrow> exn + float64 list \<times> 'a list" where
  "sort_spikes_by_rt rt spike_cell =
     (if rt = [] then Inr ([], spike_cell)
      else
        let sort_idx = argsort rt;
            sorted_rt = map (\<lambda>i. rt ! i) sort_idx
        in ebind (emap (py_get spike_cell) sort_idx) (\<lambda>sorted_spx. Inr (sorted_rt, sorted_spx)))"

text \<open>
  The computation inside \<open>NeuronStitcher._get_firing_rate\<close> once the raster of a unit is
  read (lines 238 to 241 and 249 to 252): sort by RT, then the PSTH over \<open>(-300, 500)\<close>
  with smoothing 10; without trials the method falls through to the NaN-filled array.
  The method passes the stored \<open>rt\<close> on as it is, whatever its length.
\<close>

definition firing_rate_of_raster ::
  "(real \<Rightarrow> real \<Rightarrow> real) \<Rightarrow> real list list \<Rightarrow> float64 list \<Rightarrow> exn + float64 list" where
  "firing_rate_of_raster norm_pdf spike_clu rt =
     (if spike_clu = [] then Inr (replicate (nat (500 - (- 300) + 1)) NaN)
      else
        ebind (sort_spikes_by_rt rt spike_clu) (\<lambda>(_, sorted_sp).
          ebind (psth norm_pdf sorted_sp (- 300, 500) 10) (\<lambda>(rate, _). Inr (map Fin rate))))"

section \<open>Trial-aligned spike extractor (\<open>trials/trial_spike.py\<close>)\<close>

text \<open>
  A trial dictionary: its \<open>Rec\<close> and \<open>Trial\<close> entries (either may be absent) and its
  event fields. An event table maps a field name to its array of timestamps; an NPclu
  table is a list of rows (spike time in samples, cluster id).
\<close>

record trial =
  trial_rec :: "string option"
  trial_index :: "int option"
  trial_fields :: "string \<Rightarrow> float64 option"

definition FS :: real where
  "FS = 30000"

definition get_rec :: "trial list \<Rightarrow> string list" where
  "get_rec trials = map (\<lambda>t. case trial_rec t of None \<Rightarrow> [] | Some r \<Rightarrow> r) trials"

text \<open>
  \<open>_load_np_spike\<close>. An infinite event time passes the NaN and zero tests and then
  selects no spike, since no finite sample lies in a window around it.
\<close>

definition load_np_spike ::
  "(real \<times> int) list \<Rightarrow> (string \<Rightarrow> float64 list option) \<Rightarrow> int \<Rightarrow> string \<Rightarrow> int \<times> int \<Rightarrow> int \<Rightarrow>
   real list" where
  "load_np_spike npclu events subtrial event_field bn cluster_id =
     (if npclu = [] then []
      else
        case events event_field of
          None \<Rightarrow> []
        | Some event_times \<Rightarrow>
            let idx = (if subtrial > 0 then subtrial - 1 else 0) in
            if int (length event_times) \<le> idx then []
            else
              (case event_times ! nat idx of
                 NaN \<Rightarrow> []
               | Fin event_time \<Rightarrow>
                   if event_time = 0 then []
                   else
                     let event_sample = event_time * FS / 1000;
                         clu_spikes = map fst (filter (\<lambda>(t, c). c = cluster_id) npclu);
                         start_sample = event_sample + real_of_int (fst bn) * FS / 1000;
                         end_sample = event_sample + real_of_int (snd bn) * FS / 1000;
                         window_spikes =
                           filter (\<lambda>t. start_sample \<le> t \<and> t \<le> end_sample) clu_spikes
                     in map (\<lambda>t. (t - event_sample) * 1000 / FS) window_spikes
               | _ \<Rightarrow> []))"

text \<open>
  \<open>trial_np_spike\<close>. \<open>load_events\<close> and \<open>load_npclu\<close> are \<open>_load_events\<close> and
  \<open>_load_npclu\<close> as functions of the recording (\<open>None\<close> when the table is not available);
  \<open>all_recs\<close> is the result of \<open>dayrecs\<close>. \<open>trial_subtrial\<close> is
  \<open>trials[i_tr].get("Trial", i_tr)\<close>, and \<open>process_rec\<close> is the body of the loop over
  \<open>all_recs\<close>, acting on \<open>spike_result\<close>.
\<close>

definition trial_subtrial :: "trial list \<Rightarrow> nat \<Rightarrow> int" where
  "trial_subtrial trials i_tr =
     (case trial_index (trials ! i_tr) of None \<Rightarrow> int i_tr | Some k \<Rightarrow> k)"

definition process_rec ::
  "(string \<Rightarrow> (string \<Rightarrow> float64 list option) option) \<Rightarrow> (string \<Rightarrow> (real \<times> int) list option) \<Rightarrow>
   trial list \<Rightarrow> int \<Rightarrow> string \<Rightarrow> int \<times> int \<Rightarrow> string \<Rightarrow> real list list \<Rightarrow> real list list" where
  "process_rec load_events load_npclu trials cluster_id event_field bn rec spike_result =
     (let trial_recs = get_rec trials;
          rec_trial_indices = filter (\<lambda>i. trial_recs ! i = rec) [0..<length trials]
      in if rec_trial_indices = [] then spike_result
         else
           case load_events rec of
             None \<Rightarrow> spike_result
           | Some events \<Rightarrow>
               (case load_npclu rec of
                  None \<Rightarrow> spike_result
                | Some npclu \<Rightarrow>
                    fold
                      (\<lambda>i_tr sr.
                         sr[i_tr := load_np_spike npclu events (trial_subtrial trials i_tr)
                                      event_field bn cluster_id])
                      rec_trial_indices spike_result))"

definition trial_np_spike ::
  "(string \<Rightarrow> (string \<Rightarrow> float64 list option) option) \<Rightarrow> (string \<Rightarrow> (real \<times> int) list option) \<Rightarrow>
   string list \<Rightarrow> trial list \<Rightarrow> int \<Rightarrow> string \<Rightarrow> int \<times> int \<Rightarrow> real list list" where
  "trial_np_spike load_events load_npclu all_recs trials cluster_id event_field bn =
     (if trials = [] then []
      else
        let n_total_tr = length trials
        in fold (process_rec load_events load_npclu trials cluster_id event_field bn)
             all_recs (replicate n_total_tr []))"

text \<open>
  In the words of the specification: the aligning event's timestamp at the trial's local
  index is missing (the field is absent or the index is out of range), NaN, or exactly
  zero.
\<close>

definition event_missing :: "(string \<Rightarrow> float64 list option) \<Rightarrow> string \<Rightarrow> int \<Rightarrow> bool" where
  "event_missing events event_field subtrial =
     (case events event_field of
        None \<Rightarrow> True
      | Some event_times \<Rightarrow>
          (let idx = (if subtrial > 0 then subtrial - 1 else 0)
           in int (length event_times) \<le> idx \<or> event_times ! nat idx = NaN \<or>
              event_times ! nat idx = Fin 0))"

text \<open>The spike times \<open>process_rec\<close> stores for a trial of a recording both of whose
  tables are available.\<close>

definition trial_value ::
  "(string \<Rightarrow> (string \<Rightarrow> float64 list option) option) \<Rightarrow> (string \<Rightarrow> (real \<times> int) list option) \<Rightarrow>
   trial list \<Rightarrow> int \<Rightarrow> string \<Rightarrow> int \<times> int \<Rightarrow> nat \<Rightarrow> real list option" where
  "trial_value lev lnp trials c ef bn j =
     (case lev (get_rec trials ! j) of
        None \<Rightarrow> None
      | Some events \<Rightarrow>
          (case lnp (get_rec trials ! j) of
             None \<Rightarrow> None
           | Some npclu \<Rightarrow> Some (load_np_spike npclu events (trial_subtrial trials j) ef bn c)))"

section \<open>Task-type policy (\<open>trials/task_types.py\<close>, \<open>analysis/extract_rasters.py\<close>)\<close>









section \<open>Cluster channel profiler (\<open>utils/channel_info.py\<close>, \<open>clus_channel_info\<close>)\<close>

text \<open>
  The Kilosort output the profiler reads: the cluster of every spike, the template
  waveforms (template, time, channel), the PC features (spike, feature, local channel;
  optional) and the local channel indices of every template (optional). The arrays are
  rectangular, and a template has at least one time point.
\<close>

record kilosort_output =
  ks_clu :: "int list"
  ks_temps :: "real list list list"
  ks_pc_feat :: "real list list list option"
  ks_pc_feat_ind :: "nat list list option"

text \<open>\<open>np.argmax\<close>, \<open>np.argmin\<close> and \<open>np.max\<close> on finite values; each raises on an empty
  array.\<close>

fun argbest_scan :: "(real \<Rightarrow> real \<Rightarrow> bool) \<Rightarrow> nat \<Rightarrow> real \<Rightarrow> nat \<Rightarrow> real list \<Rightarrow> nat" where
  "argbest_scan better bi bv i [] = bi"
| "argbest_scan better bi bv i (x # xs) =
     (if better x bv then argbest_scan better i x (Suc i) xs
      else argbest_scan better bi bv (Suc i) xs)"

definition argmax_real :: "real list \<Rightarrow> exn + nat" where
  "argmax_real xs =
     (case xs of [] \<Rightarrow> Inl ValueError | x # rest \<Rightarrow> Inr (argbest_scan (\<lambda>a b. b < a) 0 x 1 rest))"

definition argmin_real :: "real list \<Rightarrow> exn + nat" where
  "argmin_real xs =
     (case xs of [] \<Rightarrow> Inl ValueError | x # rest \<Rightarrow> Inr (argbest_scan (\<lambda>a b. a < b) 0 x 1 rest))"

definition max_real :: "real list \<Rightarrow> exn + real" where
  "max_real xs = (case xs of [] \<Rightarrow> Inl ValueError | x # rest \<Rightarrow> Inr (fold max rest x))"

text \<open>
  The non-zero PC ratios: \<open>pc_shape2\<close> is \<open>my_pc_feat.shape[2]\<close>; a spike counts as zero
  on a channel when its first three features are all zero there.
\<close>

definition pc_shape2 :: "real list list list \<Rightarrow> nat" where
  "pc_shape2 pc = (case pc of [] \<Rightarrow> 0 | sp # _ \<Rightarrow> (case sp of [] \<Rightarrow> 0 | f # _ \<Rightarrow> length f))"

definition pc_ratios :: "real list list list option \<Rightarrow> nat list \<Rightarrow> nat \<Rightarrow> exn + real list" where
  "pc_ratios pc_feat my_spikes n_local =
     (case pc_feat of
        None \<Rightarrow> Inr (replicate n_local 0)
      | Some pc \<Rightarrow>
          ebind (emap (py_get pc) my_spikes) (\<lambda>rows.
            let my_pc_feat = map (take 3) rows;
                covered = min n_local (pc_shape2 pc)
            in Inr (map (\<lambda>ch.
                      if ch < covered then
                        1 - real (length (filter (\<lambda>sp. list_all (\<lambda>f. f ! ch = 0) sp) my_pc_feat))
                              / real (length my_pc_feat)
                      else 0)
                    [0..<n_local])))"

text \<open>The body of \<open>for clu_id in cids\<close>: the pair appended to \<open>max_site_list\<close> and
  \<open>min_site_list\<close> for one unit.\<close>

definition clu_sites :: "kilosort_output \<Rightarrow> int \<Rightarrow> exn + int \<times> int" where
  "clu_sites sp clu_id =
     (let spike_temps = ks_clu sp;
          my_spikes = filter (\<lambda>i. spike_temps ! i = clu_id) [0..<length spike_temps]
      in if my_spikes = [] then Inr (0, 0)
         else
           ebind (py_index (ks_temps sp) clu_id) (\<lambda>this_clu_temp.
           ebind (case ks_pc_feat_ind sp of
                    None \<Rightarrow> Inl TypeError
                  | Some pfi \<Rightarrow> py_index pfi clu_id) (\<lambda>tmp_ind.
           ebind (emap (\<lambda>row. emap (py_get row) tmp_ind) this_clu_temp) (\<lambda>this_clu_wfs.
             let n_local = length tmp_ind;
                 ptp_energy = map (\<lambda>ch. sum_list (map (\<lambda>row. (row ! ch)\<^sup>2) this_clu_wfs))
                                [0..<n_local]
             in
           ebind (pc_ratios (ks_pc_feat sp) my_spikes n_local) (\<lambda>non_zeros_pc_ratios.
           ebind (max_real ptp_energy) (\<lambda>me.
           ebind (max_real non_zeros_pc_ratios) (\<lambda>mn.
             let alpha = 1;
                 min_pc_threshold = 1 / 10;
                 max_energy = (if me > 0 then me else 1);
                 ptp_norm = map (\<lambda>e. e / max_energy) ptp_energy;
                 max_nzr = (if mn > 0 then mn else 1);
                 nzr_norm = map (\<lambda>r. r / max_nzr) non_zeros_pc_ratios;
                 combined_score = map2 (\<lambda>p n. alpha * p + (1 - alpha) * n) ptp_norm nzr_norm
             in
           ebind (argmax_real combined_score) (\<lambda>best0.
             let eligible = filter (\<lambda>i. non_zeros_pc_ratios ! i \<ge> 1 / 2) [0..<n_local] in
           ebind (if non_zeros_pc_ratios ! best0 < 1 / 2 \<and> eligible \<noteq> [] then
                    ebind (argmax_real (map (\<lambda>i. combined_score ! i) eligible))
                      (\<lambda>k. Inr (eligible ! k))
                  else Inr best0) (\<lambda>best_idx.
           ebind (argmin_real ptp_energy) (\<lambda>worst0.
             let eligible_w = filter (\<lambda>i. non_zeros_pc_ratios ! i \<ge> min_pc_threshold
                                           \<and> ptp_energy ! i > 0) [0..<n_local] in
           ebind (if non_zeros_pc_ratios ! worst0 < min_pc_threshold \<and> eligible_w \<noteq> [] then
                    ebind (argmin_real (map (\<lambda>i. ptp_energy ! i) eligible_w))
                      (\<lambda>k. Inr (eligible_w ! k))
                  else Inr worst0) (\<lambda>worst_idx.
             Inr (int (tmp_ind ! best_idx), int (tmp_ind ! worst_idx)))))))))))))"

text \<open>\<open>clus_channel_info\<close>: the loop over the cluster ids \<open>cids\<close> read from the label
  file.\<close>

definition clus_channel_info :: "kilosort_output \<Rightarrow> int list \<Rightarrow> exn + int list \<times> int list" where
  "clus_channel_info sp cids =
     efold (\<lambda>clu_id (max_site_list, min_site_list).
              ebind (clu_sites sp clu_id) (\<lambda>(mx, mn).
                Inr (max_site_list @ [mx], min_site_list @ [mn])))
       cids ([], [])"

section \<open>A session with two recordings\<close>

text \<open>
  Recordings 007 and 009 of a grouped session: 007 has unit 5 and 009 has units 7 and 8,
  all on channel 0; the features of units 5 and 8 agree. \<open>ex_config\<close> holds the default
  parameters of \<open>StitchingConfig\<close>; \<open>ex_fresh cfg ct\<close> is the stitcher that \<open>__init__\<close>
  builds for the two recordings and \<open>ex_stitcher\<close> the one that \<open>_load_cluster_info\<close>
  leaves for the cluster type \<open>All\<close>.
\<close>

definition ex_world :: world where
  "ex_world =
     \<lparr>data_root_exists = True,
      npclu_files = (\<lambda>r flag.
                       if flag = ''Grouped'' \<and> r = ''007'' then H5File [(5, 0)] [] None
                       else if flag = ''Grouped'' \<and> r = ''009''
                         then MatFile (Some [(7, 0), (8, 0)]) (Some [(8, 0)]) None
                       else NoFile),
      load_ks_dir = (\<lambda>name. if name = ''007_009'' then Inr [0, 1] else Inl FileNotFoundError),
      elec_num = [],
      get_waveform = (\<lambda>c r. [Fin (real_of_int (c mod 3)), Fin 0]),
      get_firing_rate = (\<lambda>c r. [Fin (real_of_int (c mod 3)), Fin 0])\<rparr>"

definition ex_corrcoef :: "float64 list \<Rightarrow> float64 list \<Rightarrow> float64" where
  "ex_corrcoef x y = (if x = y then Fin 1 else Fin 0)"

definition ex_config :: stitching_config where
  "ex_config =
     \<lparr>fr_corr_threshold = Fin (17 / 20), wf_corr_threshold = Fin (17 / 20),
      min_recordings = 2, channel_range = 10\<rparr>"

definition ex_fresh :: "stitching_config \<Rightarrow> string \<Rightarrow> stitcher" where
  "ex_fresh cfg ct =
     \<lparr>recs = [''007'', ''009''], grouped = True, cluster_type = ct,
      fr_threshold = fr_corr_threshold cfg, wf_threshold = wf_corr_threshold cfg,
      min_recs = min_recordings cfg, chan_range = channel_range cfg,
      gflag = ''Grouped'', rec_str = ''007_009'',
      clu_info_per_rec = [], chan_map = None, uni_chans = []\<rparr>"

definition ex_stitcher :: stitcher where
  "ex_stitcher =
     \<lparr>recs = [''007'', ''009''], grouped = True, cluster_type = ''All'',
      fr_threshold = Fin (17 / 20), wf_threshold = Fin (17 / 20),
      min_recs = 2, chan_range = 10,
      gflag = ''Grouped'', rec_str = ''007_009'',
      clu_info_per_rec = [[(5, 0)], [(7, 0), (8, 0)]],
      chan_map = Some [0, 1], uni_chans = [0]\<rparr>"

chapter \<open>Properties\<close>

section \<open>Properties of the correlation matcher\<close>

lemma mask_select_fst:
  "length xs = length ys \<Longrightarrow>
   mask_select xs (map2 (\<lambda>x y. \<not> (isnan x \<or> isnan y)) xs ys) =
     map fst (filter (\<lambda>(x, y). x \<noteq> NaN \<and> y \<noteq> NaN) (zip xs ys))"
  unfolding mask_select_def
  by (induction xs ys rule: list_induct2) (auto simp: isnan_def)

lemma mask_select_snd:
  "length xs = length ys \<Longrightarrow>
   mask_select ys (map2 (\<lambda>x y. \<not> (isnan x \<or> isnan y)) xs ys) =
     map snd (filter (\<lambda>(x, y). x \<noteq> NaN \<and> y \<noteq> NaN) (zip xs ys))"
  unfolding mask_select_def
  by (induction xs ys rule: list_induct2) (auto simp: isnan_def)

lemma count_valid:
  "length xs = length ys \<Longrightarrow>
   length (filter (\<lambda>v. v) (map2 (\<lambda>x y. \<not> (isnan x \<or> isnan y)) xs ys)) =
     length (filter (\<lambda>(x, y). x \<noteq> NaN \<and> y \<noteq> NaN) (zip xs ys))"
  by (induction xs ys rule: list_induct2) (auto simp: isnan_def)

lemma pairwise_corr_paired:
  "pairwise_corr cc a b =
     (if length (paired_samples a b) < 2 then NaN
      else cc (map fst (paired_samples a b)) (map snd (paired_samples a b)))"
proof -
  define n where "n = min (length a) (length b)"
  have len: "length (take n a) = length (take n b)"
    by (simp add: n_def)
  show ?thesis
  proof (cases "n = 0")
    case True
    then show ?thesis
      by (simp add: pairwise_corr_def paired_samples_def n_def [symmetric])
  next
    case False
    then show ?thesis
      using mask_select_fst [OF len] mask_select_snd [OF len] count_valid [OF len]
      by (simp add: pairwise_corr_def paired_samples_def n_def [symmetric] Let_def)
  qed
qed

text \<open>
  Claim C4. The matcher works on the two vectors cut to the shorter length with the
  positions dropped where either value is NaN: with fewer than two such paired samples
  (in particular when either input is empty) it returns NaN, and otherwise it returns
  the correlation coefficient of exactly those samples. The function is total, so no
  input raises.
\<close>

theorem pairwise_corr_few_samples:
  "(length (paired_samples a b) < 2 \<longrightarrow> pairwise_corr cc a b = NaN) \<and>
   (a = [] \<or> b = [] \<longrightarrow> pairwise_corr cc a b = NaN) \<and>
   (2 \<le> length (paired_samples a b) \<longrightarrow>
      pairwise_corr cc a b =
        cc (map fst (paired_samples a b)) (map snd (paired_samples a b)))"
proof -
  have "a = [] \<or> b = [] \<Longrightarrow> paired_samples a b = []"
    by (auto simp: paired_samples_def)
  then show ?thesis
    by (auto simp: pairwise_corr_paired)
qed

theorem pairwise_corr_few_samples_witness:
  "length (paired_samples [Fin 1, NaN, Fin 3] [Fin 2, Fin 5]) < 2 \<and>
   pairwise_corr (\<lambda>x y. Fin 1) [Fin 1, NaN, Fin 3] [Fin 2, Fin 5] = NaN \<and>
   pairwise_corr (\<lambda>x y. Fin 1) [] [Fin 2, Fin 5] = NaN \<and>
   2 \<le> length (paired_samples [Fin 1, NaN, Fin 3, Fin 4] [Fin 2, Fin 5, Fin 7, Fin 1, Fin 0]) \<and>
   pairwise_corr (\<lambda>x y. Fin (real (length x))) [Fin 1, NaN, Fin 3, Fin 4]
       [Fin 2, Fin 5, Fin 7, Fin 1, Fin 0] = Fin 3"
  using pairwise_corr_few_samples
          [of "[Fin 1, NaN, Fin 3]" "[Fin 2, Fin 5]" "\<lambda>x y. Fin 1"]
        pairwise_corr_few_samples [of "[]" "[Fin 2, Fin 5]" "\<lambda>x y. Fin 1"]
        pairwise_corr_few_samples
          [of "[Fin 1, NaN, Fin 3, Fin 4]" "[Fin 2, Fin 5, Fin 7, Fin 1, Fin 0]"
              "\<lambda>x y. Fin (real (length x))"]
  by (simp add: paired_samples_def)

section \<open>Length of the PSTH\<close>

lemma histogram_length:
  "1 \<le> bins \<Longrightarrow> lo \<le> hi \<Longrightarrow> \<exists>z. histogram xx bins lo hi = Inr z \<and> length z = bins"
  by (simp add: histogram_def Let_def)

lemma convolve_length:
  "a \<noteq> [] \<Longrightarrow> v \<noteq> [] \<Longrightarrow>
   \<exists>c. convolve a v = Inr c \<and> length c = length a + length v - 1"
  by (simp add: convolve_def)

lemma py_slice_center:
  "0 \<le> h \<Longrightarrow> int (length xs) = int n + 2 * h \<Longrightarrow> length (py_slice xs h (h + int n)) = n"
  by (simp add: py_slice_def Let_def)

lemma py_int_nonneg: "0 \<le> x \<Longrightarrow> 0 \<le> py_int x"
  by (simp add: py_int_def)

lemma length_upto_sym: "0 \<le> h \<Longrightarrow> int (length [- h..h]) = 2 * h + 1"
  by simp

text \<open>
  Claim C5. For a window with \<open>start \<le> stop\<close> and a smoothing width (a standard
  deviation, so not negative), \<open>psth\<close> returns a rate vector of length
  \<open>stop - start + 1\<close> together with the number of trials, whatever the smoothing width
  and the kernel; with no trials the vector is all zero and the trial count is 0.
\<close>

theorem psth_output_length:
  assumes "start \<le> stop" and "0 \<le> smoothing"
  shows "(\<exists>rate. psth norm_pdf spike_cell (start, stop) smoothing = Inr (rate, length spike_cell) \<and>
            length rate = nat (stop - start + 1)) \<and>
         psth norm_pdf [] (start, stop) smoothing = Inr (replicate (nat (stop - start + 1)) 0, 0)"
proof -
  define L where "L = nat (stop - start + 1)"
  define h where "h = py_int (3 * smoothing)"
  have L: "length (map real_of_int [start..stop]) = L" "1 \<le> L"
    using assms(1) by (simp_all add: L_def)
  have h: "0 \<le> h"
    using assms(2) by (simp add: h_def py_int_nonneg)
  have zero: "psth norm_pdf [] (start, stop) smoothing = Inr (replicate L 0, 0)"
    using assms(1) by (simp add: psth_def L_def)
  have "\<exists>rate. psth norm_pdf spike_cell (start, stop) smoothing = Inr (rate, length spike_cell) \<and>
            length rate = L"
  proof (cases "spike_cell = []")
    case True
    then show ?thesis using zero by simp
  next
    case False
    define k where "k = 1000 / real (length spike_cell)"
    define xx where "xx = concat (filter (\<lambda>spikes. spikes \<noteq> []) spike_cell)"
    obtain z where z: "histogram xx L (real_of_int start) (real_of_int stop) = Inr z"
      "length z = L"
      using histogram_length [of L "real_of_int start" "real_of_int stop" xx] L(2) assms(1)
      by auto
    define window where "window = map (\<lambda>x. norm_pdf x smoothing) (map real_of_int [- h..h])"
    have wl: "int (length window) = 2 * h + 1"
      using h by (simp add: window_def)
    have wne: "window \<noteq> []"
    proof
      assume "window = []"
      with wl have "2 * h + 1 = 0" by simp
      with h show False by arith
    qed
    have zne: "map real z \<noteq> []" using z(2) L(2) by auto
    obtain c where c: "convolve (map real z) window = Inr c"
      "length c = length (map real z) + length window - 1"
      using convolve_length [OF zne wne] by auto
    have cl: "int (length (map ((*) k) c)) = int L + 2 * h"
    proof -
      have "1 \<le> length window" using wne by (cases window) auto
      then have "int (length c) = int L + int (length window) - 1"
        using c(2) z(2) by (simp add: of_nat_diff)
      then show ?thesis using wl by simp
    qed
    have "psth norm_pdf spike_cell (start, stop) smoothing =
            ebind (histogram xx L (real_of_int start) (real_of_int stop)) (\<lambda>z.
              ebind (convolve (map real z) window) (\<lambda>c.
                Inr (py_slice (map ((*) k) c) h (h + int L),
                     length spike_cell)))"
      using False assms(1)
      by (simp add: psth_def Let_def xx_def h_def window_def L_def k_def)
    also have "\<dots> = ebind (convolve (map real z) window) (\<lambda>c.
                Inr (py_slice (map ((*) k) c) h (h + int L),
                     length spike_cell))"
      by (simp add: z(1) ebind_def)
    also have "\<dots> =
            Inr (py_slice (map ((*) k) c) h (h + int L),
                 length spike_cell)"
      by (simp add: c(1) ebind_def)
    finally have "psth norm_pdf spike_cell (start, stop) smoothing =
            Inr (py_slice (map ((*) k) c) h (h + int L),
                 length spike_cell)" .
    then show ?thesis
      using py_slice_center [OF h cl] by simp
  qed
  then show ?thesis using zero by (simp add: L_def)
qed


theorem psth_output_length_witness:
  "(- 100 :: int) \<le> 100 \<and> (0 :: real) \<le> 10 \<and>
   (\<exists>rate. psth (\<lambda>x s. 1) [[0], [5, 7]] (- 100, 100) 10 = Inr (rate, length [[0 :: real], [5, 7]]) \<and>
      length rate = nat (100 - (- 100) + 1)) \<and>
   psth (\<lambda>x s. 1) [] (- 300, 500) 50 = Inr (replicate 801 0, 0)"
  using psth_output_length [of "- 100" 100 10 "\<lambda>x s. 1" "[[0], [5, 7]]"]
        psth_output_length [of "- 300" 500 50 "\<lambda>x s. 1" "[]"]
  by simp

section \<open>The PSTH does not depend on the order of the trials\<close>

lemma count_filter_mset:
  "mset xs = mset ys \<Longrightarrow> length (filter P xs) = length (filter P ys)"
proof -
  assume "mset xs = mset ys"
  then have "mset (filter P xs) = mset (filter P ys)" by simp
  then show ?thesis by (rule mset_eq_length)
qed

lemma histogram_mset:
  "mset xs = mset ys \<Longrightarrow> histogram xs n lo hi = histogram ys n lo hi"
  by (simp add: histogram_def Let_def count_filter_mset [of xs ys])

lemma mset_concat_image: "mset (concat xs) = sum_mset (image_mset mset (mset xs))"
  by (induction xs) simp_all

lemma mset_concat_filter:
  assumes "mset c1 = mset c2"
  shows "mset (concat (filter P c1)) = mset (concat (filter P c2))"
  by (simp add: mset_concat_image assms)

lemma psth_perm:
  assumes "mset c1 = mset c2"
  shows "psth norm_pdf c1 bn smoothing = psth norm_pdf c2 bn smoothing"
proof -
  have len: "length c1 = length c2" using assms by (rule mset_eq_length)
  have h: "\<And>n lo hi. histogram (concat (filter (\<lambda>spikes. spikes \<noteq> []) c1)) n lo hi =
                     histogram (concat (filter (\<lambda>spikes. spikes \<noteq> []) c2)) n lo hi"
    by (rule histogram_mset) (rule mset_concat_filter [OF assms])
  show ?thesis
    by (simp add: psth_def Let_def len h)
qed

lemma emap_py_get:
  "\<forall>i \<in> set idx. i < length xs \<Longrightarrow> emap (py_get xs) idx = Inr (map (nth xs) idx)"
  by (induction idx) (simp_all add: ebind_def py_get_def)

lemma mset_argsort: "mset (argsort rt) = mset [0..<length rt]"
  by (simp add: argsort_def)

lemma set_argsort: "set (argsort rt) = {0..<length rt}"
  by (simp add: argsort_def)

lemma sort_spikes_by_rt_perm:
  assumes "length rt = length cell"
  shows "\<exists>srt sorted. sort_spikes_by_rt rt cell = Inr (srt, sorted) \<and> mset sorted = mset cell"
proof (cases "rt = []")
  case True
  then show ?thesis by (simp add: sort_spikes_by_rt_def)
next
  case False
  have "\<forall>i \<in> set (argsort rt). i < length cell"
    using assms by (simp add: set_argsort)
  then have e: "emap (py_get cell) (argsort rt) = Inr (map (nth cell) (argsort rt))"
    by (rule emap_py_get)
  have "mset (map (nth cell) (argsort rt)) = image_mset (nth cell) (mset (argsort rt))"
    by simp
  also have "\<dots> = image_mset (nth cell) (mset [0..<length rt])"
    by (simp only: mset_argsort)
  also have "\<dots> = mset (map (nth cell) [0..<length cell])"
    by (simp only: mset_map assms)
  also have "\<dots> = mset cell"
    by (simp add: map_nth)
  finally have m: "mset (map (nth cell) (argsort rt)) = mset cell" .
  show ?thesis
    using False e m by (simp add: sort_spikes_by_rt_def Let_def ebind_def)
qed

text \<open>
  A reaction-time array shorter than the raster makes \<open>sort_spikes_by_rt\<close> return a
  permutation of the first \<open>len(rt)\<close> trials only; a longer one makes it raise.
\<close>

lemma emap_py_get_out:
  "\<exists>i \<in> set idx. length xs \<le> i \<Longrightarrow> emap (py_get xs) idx = Inl IndexError"
proof (induction idx)
  case Nil
  then show ?case by simp
next
  case (Cons i idx)
  show ?case
  proof (cases "i < length xs")
    case True
    then have "\<exists>j \<in> set idx. length xs \<le> j" using Cons.prems by auto
    then have "emap (py_get xs) idx = Inl IndexError" by (rule Cons.IH)
    moreover have "py_get xs i = Inr (xs ! i)" using True by (simp add: py_get_def)
    ultimately show ?thesis by (simp add: ebind_def)
  next
    case False
    then have "py_get xs i = Inl IndexError" by (simp add: py_get_def)
    then show ?thesis by (simp add: ebind_def)
  qed
qed

lemma sort_spikes_by_rt_shorter:
  assumes "rt \<noteq> []" and "length rt \<le> length cell"
  shows "\<exists>srt sorted. sort_spikes_by_rt rt cell = Inr (srt, sorted) \<and>
           mset sorted = mset (take (length rt) cell)"
proof -
  have "\<forall>i \<in> set (argsort rt). i < length cell"
    using assms(2) by (auto simp add: set_argsort)
  then have e: "emap (py_get cell) (argsort rt) = Inr (map (nth cell) (argsort rt))"
    by (rule emap_py_get)
  have t: "map (nth cell) [0..<length rt] = take (length rt) cell"
    using assms(2) by (intro nth_equalityI) simp_all
  have "mset (map (nth cell) (argsort rt)) = image_mset (nth cell) (mset (argsort rt))"
    by simp
  also have "\<dots> = image_mset (nth cell) (mset [0..<length rt])"
    by (simp only: mset_argsort)
  also have "\<dots> = mset (map (nth cell) [0..<length rt])"
    by (simp only: mset_map)
  also have "\<dots> = mset (take (length rt) cell)"
    by (simp only: t)
  finally have m: "mset (map (nth cell) (argsort rt)) = mset (take (length rt) cell)" .
  show ?thesis
    using assms(1) e m by (simp add: sort_spikes_by_rt_def Let_def ebind_def)
qed

lemma firing_rate_of_raster_rt_shorter:
  assumes "rt \<noteq> []" and "length rt \<le> length cell"
  shows "firing_rate_of_raster norm_pdf cell rt =
           ebind (psth norm_pdf (take (length rt) cell) (- 300, 500) 10)
             (\<lambda>(rate, n_tr). Inr (map Fin rate))"
proof -
  obtain srt sorted where
    s: "sort_spikes_by_rt rt cell = Inr (srt, sorted)" "mset sorted = mset (take (length rt) cell)"
    using sort_spikes_by_rt_shorter [OF assms] by blast
  have "cell \<noteq> []" using assms by auto
  then show ?thesis
    using s(1) psth_perm [OF s(2), of norm_pdf "(- 300, 500)" 10]
    by (simp add: firing_rate_of_raster_def ebind_def)
qed

lemma firing_rate_of_raster_rt_longer:
  assumes "cell \<noteq> []" and "length cell < length rt"
  shows "firing_rate_of_raster norm_pdf cell rt = Inl IndexError"
proof -
  have "length cell \<in> set (argsort rt)"
    using assms(2) by (simp add: set_argsort)
  then have "\<exists>i \<in> set (argsort rt). length cell \<le> i" by blast
  then have "emap (py_get cell) (argsort rt) = Inl IndexError"
    by (rule emap_py_get_out)
  moreover have "rt \<noteq> []" using assms(2) by auto
  ultimately show ?thesis
    using assms(1)
    by (simp add: firing_rate_of_raster_def sort_spikes_by_rt_def Let_def ebind_def)
qed

text \<open>
  Claim C10, as amended. The PSTH is the same for every permutation of the per-trial
  spike lists (rate vector and trial count alike). For a reaction-time array as long as
  the spike list, \<open>sort_spikes_by_rt\<close> returns such a permutation, so the PSTH of the
  sorted list is the PSTH of the list itself. The firing rate that the stitcher computes
  from a raster is the PSTH of the unsorted raster when the stored reaction-time array
  is empty or has one entry per trial.
\<close>

theorem psth_rt_sort_invariant:
  "(mset cell' = mset cell \<longrightarrow>
      psth norm_pdf cell' bn smoothing = psth norm_pdf cell bn smoothing) \<and>
   (length rt = length cell \<longrightarrow>
      (\<exists>srt sorted. sort_spikes_by_rt rt cell = Inr (srt, sorted) \<and> mset sorted = mset cell \<and>
         psth norm_pdf sorted bn smoothing = psth norm_pdf cell bn smoothing)) \<and>
   (rt = [] \<or> length rt = length cell \<longrightarrow>
      firing_rate_of_raster norm_pdf cell rt =
        (if cell = [] then Inr (replicate 801 NaN)
         else ebind (psth norm_pdf cell (- 300, 500) 10) (\<lambda>(rate, n_tr). Inr (map Fin rate))))"
proof (intro conjI impI)
  assume "mset cell' = mset cell"
  then show "psth norm_pdf cell' bn smoothing = psth norm_pdf cell bn smoothing"
    by (rule psth_perm)
next
  assume "length rt = length cell"
  then obtain srt sorted where
    s: "sort_spikes_by_rt rt cell = Inr (srt, sorted)" "mset sorted = mset cell"
    using sort_spikes_by_rt_perm by blast
  then show "\<exists>srt sorted. sort_spikes_by_rt rt cell = Inr (srt, sorted) \<and> mset sorted = mset cell \<and>
         psth norm_pdf sorted bn smoothing = psth norm_pdf cell bn smoothing"
    using psth_perm [OF s(2)] by blast
next
  assume a: "rt = [] \<or> length rt = length cell"
  show "firing_rate_of_raster norm_pdf cell rt =
        (if cell = [] then Inr (replicate 801 NaN)
         else ebind (psth norm_pdf cell (- 300, 500) 10) (\<lambda>(rate, n_tr). Inr (map Fin rate)))"
  proof (cases "rt = []")
    case True
    then show ?thesis
      by (simp add: firing_rate_of_raster_def sort_spikes_by_rt_def ebind_def)
  next
    case False
    then have "length rt = length cell" using a by simp
    then obtain srt sorted where
      s: "sort_spikes_by_rt rt cell = Inr (srt, sorted)" "mset sorted = mset cell"
      using sort_spikes_by_rt_perm by blast
    show ?thesis
      using s(1) psth_perm [OF s(2), of norm_pdf "(- 300, 500)" 10]
      by (simp add: firing_rate_of_raster_def ebind_def)
  qed
qed

theorem psth_rt_sort_invariant_witness:
  "mset [[30], [40, 50, 60], [10, 20 :: real]] = mset [[10, 20], [30], [40, 50, 60]] \<and>
   psth (\<lambda>x s. 1) [[30], [40, 50, 60], [10, 20]] (- 100, 100) 5 =
     psth (\<lambda>x s. 1) [[10, 20], [30], [40, 50, 60]] (- 100, 100) 5 \<and>
   length [Fin 300, Fin 100, Fin 200] = length [[10, 20 :: real], [30], [40, 50, 60]] \<and>
   (\<exists>srt sorted.
      sort_spikes_by_rt [Fin 300, Fin 100, Fin 200] [[10, 20 :: real], [30], [40, 50, 60]] =
        Inr (srt, sorted) \<and>
      mset sorted = mset [[10, 20], [30], [40, 50, 60]] \<and>
      psth (\<lambda>x s. 1) sorted (- 100, 100) 5 =
        psth (\<lambda>x s. 1) [[10, 20], [30], [40, 50, 60]] (- 100, 100) 5) \<and>
   firing_rate_of_raster (\<lambda>x s. 1) [[10, 20], [30], [40, 50, 60]] [Fin 300, Fin 100, Fin 200] =
     ebind (psth (\<lambda>x s. 1) [[10, 20], [30], [40, 50, 60]] (- 300, 500) 10)
       (\<lambda>(rate, n_tr). Inr (map Fin rate))"
  using psth_rt_sort_invariant
          [of "[[30], [40, 50, 60], [10, 20]]" "[[10, 20], [30], [40, 50, 60]]"
              "\<lambda>x s. 1" "(- 100, 100)" 5 "[Fin 300, Fin 100, Fin 200]"]
  by simp

text \<open>
  The PSTH over \<open>(-300, 500)\<close> with smoothing 10 of a raster whose only spike is at time 0:
  the spike falls into bin 300, where the rate is \<open>1000 / n_tr\<close> times the kernel at 0.
\<close>

lemma histogram_single_spike:
  "histogram [0] 801 (- 300) 500 = Inr (map (\<lambda>k. if k = 300 then 1 else 0) [0..<801])"
  by (simp add: histogram_def Let_def)

lemma convolve_single_spike:
  assumes "convolve (map real (map (\<lambda>k. if k = 300 then 1 else 0) [0..<801])) window = Inr c"
    and "length window = 61"
  shows "length c = 861 \<and> c ! 330 = window ! 30"
proof -
  define a where "a = map real (map (\<lambda>k. if k = 300 then 1 else 0 :: nat) [0..<801])"
  define f where "f = (\<lambda>j. if j \<le> 330 \<and> 330 - j < length window
                          then a ! j * window ! (330 - j) else 0)"
  have c: "c = map (\<lambda>k. sum_list (map (\<lambda>j. if j \<le> k \<and> k - j < length window
                                              then a ! j * window ! (k - j) else 0)
                                       [0..<length a]))
                  [0..<length a + length window - 1]"
    using assms unfolding convolve_def a_def [symmetric] by (auto simp add: a_def split: if_splits)
  have la: "length a = 801" by (simp add: a_def)
  have len: "length c = 861" unfolding c by (simp add: la assms(2))
  have "c ! 330 = sum_list (map f [0..<801])"
    unfolding c f_def la by (simp add: assms(2) del: upt_Suc cong: if_cong)
  also have "\<dots> = sum f {0..<801}"
    by (simp add: interv_sum_list_conv_sum_set_nat)
  also have "\<dots> = sum (\<lambda>j. if j = 300 then window ! 30 else 0) {0..<801::nat}"
  proof (rule sum.cong [OF refl])
    fix j assume "j \<in> {0..<801::nat}"
    then have "j < 801" by simp
    then have "a ! j = (if j = 300 then 1 else 0)" by (simp add: a_def)
    then show "f j = (if j = 300 then window ! 30 else 0)"
      by (auto simp add: f_def assms(2))
  qed
  also have "\<dots> = window ! 30" by (simp add: sum.delta del: upt_Suc)
  finally show ?thesis using len by simp
qed

lemma psth_single_spike:
  assumes "cell \<noteq> []" and "concat (filter (\<lambda>spikes. spikes \<noteq> []) cell) = [0]"
  shows "\<exists>rate. psth norm_pdf cell (- 300, 500) 10 = Inr (rate, length cell) \<and>
           length rate = 801 \<and> rate ! 300 = 1000 / real (length cell) * norm_pdf 0 10"
proof -
  define window where "window = map (\<lambda>x. norm_pdf x 10) (map real_of_int [- 30..30])"
  have wl: "length window = 61" by (simp add: window_def)
  have "[- 30..30::int] ! 30 = - 30 + int 30" by (rule nth_upto) simp
  then have w30: "window ! 30 = norm_pdf 0 10" by (simp add: window_def del: upto.simps)
  have "map real (map (\<lambda>k. if k = 300 then 1 else 0 :: nat) [0..<801]) \<noteq> []" by simp
  moreover have "window \<noteq> []" using wl by auto
  ultimately obtain c where
    c: "convolve (map real (map (\<lambda>k. if k = 300 then 1 else 0) [0..<801])) window = Inr c"
    using convolve_length by blast
  have cl: "length c = 861" "c ! 330 = norm_pdf 0 10"
    using convolve_single_spike [OF c wl] w30 by simp_all
  have l: "length (map real_of_int [- 300..500]) = 801" by simp
  have h: "py_int (3 * 10) = 30" by (simp add: py_int_def)
  have p: "psth norm_pdf cell (- 300, 500) 10 =
          Inr (py_slice (map ((*) (1000 / real (length cell))) c) 30 831, length cell)"
    unfolding psth_def Let_def fst_conv snd_conv l h assms(2) window_def [symmetric]
    using assms(1) by (simp add: histogram_single_spike c ebind_def del: upt_Suc map_map)
  have "py_slice (map ((*) (1000 / real (length cell))) c) 30 831 ! 300 =
          1000 / real (length cell) * norm_pdf 0 10"
    by (simp add: py_slice_def Let_def cl)
  moreover have "length (py_slice (map ((*) (1000 / real (length cell))) c) 30 831) = 801"
    by (simp add: py_slice_def Let_def cl)
  ultimately show ?thesis using p by simp
qed

lemma normal_pdf_mean: "0 < normal_pdf 0 10"
  by (simp add: normal_pdf_def)

text \<open>
  The claim as stated fails: the stitcher does not make the reaction-time array as long
  as the raster. For a raster of two trials stored with one reaction time (as
  \<open>extract_rasters\<close> writes it when the trials of one task type have reaction times and
  those of another have none), the sorting keeps the first trial only, and the firing
  rate at the bin of the spike is twice that of the unsorted raster, whatever the kernel;
  with the normal density the two curves differ. For a raster stored with more reaction
  times than trials the sorting raises.
\<close>

theorem psth_rt_sort_counterexample:
  "(\<forall>norm_pdf. \<exists>sorted_rate rate.
      firing_rate_of_raster norm_pdf [[0], []] [Fin 1] = Inr sorted_rate \<and>
      ebind (psth norm_pdf [[0], []] (- 300, 500) 10) (\<lambda>(rate, n_tr). Inr (map Fin rate)) =
        Inr rate \<and>
      sorted_rate ! 300 = Fin (1000 * norm_pdf 0 10) \<and>
      rate ! 300 = Fin (500 * norm_pdf 0 10)) \<and>
   firing_rate_of_raster normal_pdf [[0], []] [Fin 1] \<noteq>
     ebind (psth normal_pdf [[0], []] (- 300, 500) 10) (\<lambda>(rate, n_tr). Inr (map Fin rate)) \<and>
   sort_spikes_by_rt [Fin 1] [[0 :: real], []] = Inr ([Fin 1], [[0]]) \<and>
   firing_rate_of_raster normal_pdf [[0]] [Fin 1, Fin 2] = Inl IndexError"
proof -
  have s: "sort_spikes_by_rt [Fin 1] [[0 :: real], []] = Inr ([Fin 1], [[0]])"
    by code_simp
  have "sort_spikes_by_rt [Fin 1, Fin 2] [[0 :: real]] = Inl IndexError"
    by code_simp
  then have long: "firing_rate_of_raster normal_pdf [[0]] [Fin 1, Fin 2] = Inl IndexError"
    by (simp add: firing_rate_of_raster_def ebind_def)
  have short: "\<exists>sorted_rate rate.
        firing_rate_of_raster norm_pdf [[0], []] [Fin 1] = Inr sorted_rate \<and>
        ebind (psth norm_pdf [[0], []] (- 300, 500) 10) (\<lambda>(rate, n_tr). Inr (map Fin rate)) =
          Inr rate \<and>
        sorted_rate ! 300 = Fin (1000 * norm_pdf 0 10) \<and>
        rate ! 300 = Fin (500 * norm_pdf 0 10)" for norm_pdf
  proof -
    obtain r1 where r1: "psth norm_pdf [[0]] (- 300, 500) 10 = Inr (r1, 1)"
      "length r1 = 801" "r1 ! 300 = 1000 * norm_pdf 0 10"
      using psth_single_spike [of "[[0]]" norm_pdf] by auto
    obtain r2 where r2: "psth norm_pdf [[0], []] (- 300, 500) 10 = Inr (r2, 2)"
      "length r2 = 801" "r2 ! 300 = 500 * norm_pdf 0 10"
      using psth_single_spike [of "[[0], []]" norm_pdf] by auto
    have "firing_rate_of_raster norm_pdf [[0], []] [Fin 1] = Inr (map Fin r1)"
      by (simp add: firing_rate_of_raster_def s r1(1) ebind_def)
    moreover have "ebind (psth norm_pdf [[0], []] (- 300, 500) 10)
                     (\<lambda>(rate, n_tr). Inr (map Fin rate)) = Inr (map Fin r2)"
      by (simp add: r2(1) ebind_def)
    moreover have "map Fin r1 ! 300 = Fin (1000 * norm_pdf 0 10)"
      using r1(2, 3) by simp
    moreover have "map Fin r2 ! 300 = Fin (500 * norm_pdf 0 10)"
      using r2(2, 3) by simp
    ultimately show ?thesis by blast
  qed
  have differ: "firing_rate_of_raster normal_pdf [[0], []] [Fin 1] \<noteq>
     ebind (psth normal_pdf [[0], []] (- 300, 500) 10) (\<lambda>(rate, n_tr). Inr (map Fin rate))"
  proof
    assume e: "firing_rate_of_raster normal_pdf [[0], []] [Fin 1] =
      ebind (psth normal_pdf [[0], []] (- 300, 500) 10) (\<lambda>(rate, n_tr). Inr (map Fin rate))"
    from short [of normal_pdf] obtain sorted_rate rate where
      r: "firing_rate_of_raster normal_pdf [[0], []] [Fin 1] = Inr sorted_rate"
        "ebind (psth normal_pdf [[0], []] (- 300, 500) 10)
           (\<lambda>(rate, n_tr). Inr (map Fin rate)) = Inr rate"
        "sorted_rate ! 300 = Fin (1000 * normal_pdf 0 10)"
        "rate ! 300 = Fin (500 * normal_pdf 0 10)"
      by blast
    from e r(1,2) have "sorted_rate = rate" by simp
    then have "1000 * normal_pdf 0 10 = 500 * normal_pdf 0 10" using r(3,4) by simp
    then show False using normal_pdf_mean by simp
  qed
  show ?thesis using s long short differ by blast
qed

section \<open>Trials without an event or without tables\<close>

lemma fold_update_nth:
  "j < length sr \<Longrightarrow>
   fold (\<lambda>i s. s[i := g i]) idxs sr ! j = (if j \<in> set idxs then g j else sr ! j)"
  by (induction idxs arbitrary: sr) (auto simp: nth_list_update)

lemma fold_update_length:
  "length (fold (\<lambda>i s. s[i := g i]) idxs sr) = length sr"
  by (induction idxs arbitrary: sr) auto

lemma process_rec_length:
  "length (process_rec lev lnp trials c ef bn r sr) = length sr"
  by (simp add: process_rec_def Let_def fold_update_length split: option.splits)

lemma process_rec_nth:
  assumes "j < length trials" "length sr = length trials"
  shows "process_rec lev lnp trials c ef bn r sr ! j =
           (if get_rec trials ! j = r then
              (case trial_value lev lnp trials c ef bn j of None \<Rightarrow> sr ! j | Some v \<Rightarrow> v)
            else sr ! j)"
proof -
  have mem: "j \<in> set (filter (\<lambda>i. get_rec trials ! i = r) [0..<length trials]) \<longleftrightarrow>
               get_rec trials ! j = r"
    using assms(1) by simp
  have ne: "get_rec trials ! j = r \<Longrightarrow>
              filter (\<lambda>i. get_rec trials ! i = r) [0..<length trials] \<noteq> []"
    using mem by fastforce
  show ?thesis
    using assms ne
    by (auto simp: process_rec_def Let_def trial_value_def fold_update_nth
             split: option.splits)
qed

lemma fold_process_rec_length:
  "length (fold (process_rec lev lnp trials c ef bn) rs sr) = length sr"
  by (induction rs arbitrary: sr) (simp_all add: process_rec_length)

lemma fold_process_rec_nth:
  assumes "j < length trials" "length sr = length trials"
  shows "fold (process_rec lev lnp trials c ef bn) rs sr ! j =
           (if get_rec trials ! j \<in> set rs then
              (case trial_value lev lnp trials c ef bn j of None \<Rightarrow> sr ! j | Some v \<Rightarrow> v)
            else sr ! j)"
  using assms(2)
proof (induction rs arbitrary: sr)
  case Nil
  then show ?case by simp
next
  case (Cons r rs)
  have l: "length (process_rec lev lnp trials c ef bn r sr) = length trials"
    using Cons.prems by (simp add: process_rec_length)
  show ?case
    using Cons.IH [OF l] process_rec_nth [OF assms(1) Cons.prems, of lev lnp c ef bn r]
    by (auto split: option.splits)
qed

lemma trial_np_spike_nth:
  assumes "j < length trials"
  shows "trial_np_spike lev lnp all_recs trials c ef bn ! j =
           (if get_rec trials ! j \<in> set all_recs then
              (case trial_value lev lnp trials c ef bn j of None \<Rightarrow> [] | Some v \<Rightarrow> v)
            else [])"
proof -
  have ne: "trials \<noteq> []" using assms by auto
  show ?thesis
    using assms ne fold_process_rec_nth [OF assms, of "replicate (length trials) []" lev lnp c ef bn all_recs]
    by (auto simp: trial_np_spike_def Let_def split: option.splits)
qed

lemma trial_np_spike_length:
  "length (trial_np_spike lev lnp all_recs trials c ef bn) = length trials"
  by (simp add: trial_np_spike_def Let_def fold_process_rec_length)

lemma load_np_spike_missing:
  "event_missing events ef subtrial \<Longrightarrow> load_np_spike npclu events subtrial ef bn c = []"
  by (auto simp: event_missing_def load_np_spike_def Let_def split: option.splits)

text \<open>
  Claim C6. \<open>trial_np_spike\<close> returns one array per trial, and the array of a trial is
  empty whenever the event table or the spike table of the trial's recording is not
  available, or the aligning event's timestamp at the trial's local index is missing,
  NaN or exactly zero. The function is total on these inputs: nothing is raised.
\<close>

theorem trial_np_spike_empty:
  assumes "j < length trials"
      and "lev (get_rec trials ! j) = None \<or> lnp (get_rec trials ! j) = None \<or>
           (\<exists>events. lev (get_rec trials ! j) = Some events \<and>
              event_missing events ef (trial_subtrial trials j))"
  shows "length (trial_np_spike lev lnp all_recs trials c ef bn) = length trials \<and>
         trial_np_spike lev lnp all_recs trials c ef bn ! j = []"
  using assms
  by (auto simp: trial_np_spike_nth trial_np_spike_length trial_value_def
        load_np_spike_missing split: option.splits)


theorem trial_np_spike_empty_witness:
  "(1 :: nat) <
     length [\<lparr>trial_rec = Some ''007'', trial_index = Some 1, trial_fields = (\<lambda>f. None)\<rparr>,
             \<lparr>trial_rec = Some ''007'', trial_index = Some 2, trial_fields = (\<lambda>f. None)\<rparr>,
             \<lparr>trial_rec = Some ''009'', trial_index = None, trial_fields = (\<lambda>f. None)\<rparr>] \<and>
   event_missing (\<lambda>f. if f = ''TargsOn'' then Some [Fin 1000, NaN] else None) ''TargsOn'' 2 \<and>
   trial_np_spike
     (\<lambda>r. if r = ''007''
           then Some (\<lambda>f. if f = ''TargsOn'' then Some [Fin 1000, NaN] else None) else None)
     (\<lambda>r. Some [(30000, 1), (30030, 1)]) [''007'', ''009'']
     [\<lparr>trial_rec = Some ''007'', trial_index = Some 1, trial_fields = (\<lambda>f. None)\<rparr>,
      \<lparr>trial_rec = Some ''007'', trial_index = Some 2, trial_fields = (\<lambda>f. None)\<rparr>,
      \<lparr>trial_rec = Some ''009'', trial_index = None, trial_fields = (\<lambda>f. None)\<rparr>]
     1 ''TargsOn'' (- 300, 500) ! 1 = [] \<and>
   trial_np_spike
     (\<lambda>r. if r = ''007''
           then Some (\<lambda>f. if f = ''TargsOn'' then Some [Fin 1000, NaN] else None) else None)
     (\<lambda>r. Some [(30000, 1), (30030, 1)]) [''007'', ''009'']
     [\<lparr>trial_rec = Some ''007'', trial_index = Some 1, trial_fields = (\<lambda>f. None)\<rparr>,
      \<lparr>trial_rec = Some ''007'', trial_index = Some 2, trial_fields = (\<lambda>f. None)\<rparr>,
      \<lparr>trial_rec = Some ''009'', trial_index = None, trial_fields = (\<lambda>f. None)\<rparr>]
     1 ''TargsOn'' (- 300, 500) ! 2 = []"
  using trial_np_spike_empty
          [of 1 "[\<lparr>trial_rec = Some ''007'', trial_index = Some 1, trial_fields = (\<lambda>f. None)\<rparr>,
                  \<lparr>trial_rec = Some ''007'', trial_index = Some 2, trial_fields = (\<lambda>f. None)\<rparr>,
                  \<lparr>trial_rec = Some ''009'', trial_index = None, trial_fields = (\<lambda>f. None)\<rparr>]"
              "\<lambda>r. if r = ''007''
                   then Some (\<lambda>f. if f = ''TargsOn'' then Some [Fin 1000, NaN] else None)
                   else None"
              "\<lambda>r. Some [(30000, 1), (30030, 1)]" "''TargsOn''" "[''007'', ''009'']" 1
              "(- 300, 500)"]
        trial_np_spike_empty
          [of 2 "[\<lparr>trial_rec = Some ''007'', trial_index = Some 1, trial_fields = (\<lambda>f. None)\<rparr>,
                  \<lparr>trial_rec = Some ''007'', trial_index = Some 2, trial_fields = (\<lambda>f. None)\<rparr>,
                  \<lparr>trial_rec = Some ''009'', trial_index = None, trial_fields = (\<lambda>f. None)\<rparr>]"
              "\<lambda>r. if r = ''007''
                   then Some (\<lambda>f. if f = ''TargsOn'' then Some [Fin 1000, NaN] else None)
                   else None"
              "\<lambda>r. Some [(30000, 1), (30030, 1)]" "''TargsOn''" "[''007'', ''009'']" 1
              "(- 300, 500)"]
  by (simp add: event_missing_def trial_subtrial_def get_rec_def)

section \<open>Primary and fallback alignment events\<close>




section \<open>Units without spikes\<close>

lemma clu_sites_no_spikes:
  "clu_id \<notin> set (ks_clu sp) \<Longrightarrow> clu_sites sp clu_id = Inr (0, 0)"
proof -
  assume a: "clu_id \<notin> set (ks_clu sp)"
  have "filter (\<lambda>i. ks_clu sp ! i = clu_id) [0..<length (ks_clu sp)] = []"
    using a by (auto simp: filter_empty_conv)
  then show ?thesis by (simp add: clu_sites_def Let_def)
qed

lemma clus_loop:
  "efold (\<lambda>clu_id (max_site_list, min_site_list).
            ebind (clu_sites sp clu_id) (\<lambda>(mx, mn).
              Inr (max_site_list @ [mx], min_site_list @ [mn])))
     cids (mx0, mn0) = Inr (mxs, mns) \<Longrightarrow>
   \<exists>ys. length ys = length cids \<and> mxs = mx0 @ map fst ys \<and> mns = mn0 @ map snd ys \<and>
        (\<forall>k < length cids. clu_sites sp (cids ! k) = Inr (ys ! k))"
proof (induction cids arbitrary: mx0 mn0)
  case Nil
  then show ?case by simp
next
  case (Cons c cids)
  from Cons.prems obtain a b where ab: "clu_sites sp c = Inr (a, b)"
    by (auto simp: ebind_def split: sum.splits)
  with Cons.prems have
    "efold (\<lambda>clu_id (max_site_list, min_site_list).
            ebind (clu_sites sp clu_id) (\<lambda>(mx, mn).
              Inr (max_site_list @ [mx], min_site_list @ [mn])))
     cids (mx0 @ [a], mn0 @ [b]) = Inr (mxs, mns)"
    by (simp add: ebind_def)
  from Cons.IH [OF this] obtain ys where
    ys: "length ys = length cids" "mxs = (mx0 @ [a]) @ map fst ys" "mns = (mn0 @ [b]) @ map snd ys"
      "\<forall>k < length cids. clu_sites sp (cids ! k) = Inr (ys ! k)"
    by blast
  have "\<forall>k < length (c # cids). clu_sites sp ((c # cids) ! k) = Inr (((a, b) # ys) ! k)"
    using ys(4) ab by (auto simp: nth_Cons split: nat.splits)
  then show ?case
    using ys(1,2,3) by (intro exI [of _ "(a, b) # ys"]) simp
qed

lemma clus_loop_all_empty:
  "\<forall>c \<in> set cids. c \<notin> set (ks_clu sp) \<Longrightarrow>
   efold (\<lambda>clu_id (max_site_list, min_site_list).
            ebind (clu_sites sp clu_id) (\<lambda>(mx, mn).
              Inr (max_site_list @ [mx], min_site_list @ [mn])))
     cids (mx0, mn0) = Inr (mx0 @ replicate (length cids) 0, mn0 @ replicate (length cids) 0)"
  by (induction cids arbitrary: mx0 mn0)
     (simp_all add: clu_sites_no_spikes ebind_def replicate_app_Cons_same)

text \<open>
  Claim C8. A unit with no spike gets channel 0 as its best and as its worst channel,
  whatever the templates and PC features are (the scoring is skipped: nothing it reads
  can make the step raise). In the arrays \<open>clus_channel_info\<close> returns, the entries of
  such units are 0, and when no unit has a spike the call returns all zeros even without
  any template.
\<close>

theorem zero_spike_unit_sentinel:
  "(clu_id \<notin> set (ks_clu sp) \<longrightarrow> clu_sites sp clu_id = Inr (0, 0)) \<and>
   (clus_channel_info sp cids = Inr (max_site, min_site) \<longrightarrow>
      length max_site = length cids \<and> length min_site = length cids \<and>
      (\<forall>k < length cids. cids ! k \<notin> set (ks_clu sp) \<longrightarrow> max_site ! k = 0 \<and> min_site ! k = 0)) \<and>
   ((\<forall>c \<in> set cids. c \<notin> set (ks_clu sp)) \<longrightarrow>
      clus_channel_info sp cids = Inr (replicate (length cids) 0, replicate (length cids) 0))"
proof (intro conjI impI)
  assume "clu_id \<notin> set (ks_clu sp)"
  then show "clu_sites sp clu_id = Inr (0, 0)" by (rule clu_sites_no_spikes)
next
  assume r: "clus_channel_info sp cids = Inr (max_site, min_site)"
  from clus_loop [OF r [unfolded clus_channel_info_def]] obtain ys where
    ys: "length ys = length cids" "max_site = [] @ map fst ys" "min_site = [] @ map snd ys"
      "\<forall>k < length cids. clu_sites sp (cids ! k) = Inr (ys ! k)"
    by blast
  show "length max_site = length cids" using ys by simp
  show "length min_site = length cids" using ys by simp
  show "\<forall>k < length cids. cids ! k \<notin> set (ks_clu sp) \<longrightarrow> max_site ! k = 0 \<and> min_site ! k = 0"
  proof (intro allI impI)
    fix k assume k: "k < length cids" "cids ! k \<notin> set (ks_clu sp)"
    then have "ys ! k = (0, 0)"
      using ys(4) clu_sites_no_spikes [OF k(2)] by auto
    then show "max_site ! k = 0 \<and> min_site ! k = 0"
      using ys(1,2,3) k(1) by simp
  qed
next
  assume "\<forall>c \<in> set cids. c \<notin> set (ks_clu sp)"
  then show "clus_channel_info sp cids =
               Inr (replicate (length cids) 0, replicate (length cids) 0)"
    using clus_loop_all_empty [of cids sp "[]" "[]"] by (simp add: clus_channel_info_def)
qed


lemma clus_channel_info_example:
  "clus_channel_info
     \<lparr>ks_clu = [0, 0, 2, 0],
      ks_temps = [[[1, 2, 0, 0], [0, - 3, 1, 0]], [[0, 0, 0, 0], [0, 0, 0, 0]],
                  [[0, 0, 5, 1], [0, 0, 1, 1]]],
      ks_pc_feat = Some [[[1, 0, 0], [0, 0, 0], [0, 0, 0]], [[1, 0, 0], [0, 1, 0], [0, 0, 0]],
                         [[1, 1, 0], [0, 0, 0], [0, 0, 0]], [[1, 0, 0], [0, 0, 0], [0, 0, 0]]],
      ks_pc_feat_ind = Some [[0, 1, 2], [1, 2, 3], [2, 3, 1]]\<rparr> [0, 1, 2] =
   Inr ([0, 0, 2], [0, 0, 3])"
  by code_simp

theorem zero_spike_unit_sentinel_witness:
  "(1 :: int) \<notin> set [0, 0, 2, 0] \<and>
   clu_sites
     \<lparr>ks_clu = [0, 0, 2, 0],
      ks_temps = [[[1, 2, 0, 0], [0, - 3, 1, 0]], [[0, 0, 0, 0], [0, 0, 0, 0]],
                  [[0, 0, 5, 1], [0, 0, 1, 1]]],
      ks_pc_feat = Some [[[1, 0, 0], [0, 0, 0], [0, 0, 0]], [[1, 0, 0], [0, 1, 0], [0, 0, 0]],
                         [[1, 1, 0], [0, 0, 0], [0, 0, 0]], [[1, 0, 0], [0, 0, 0], [0, 0, 0]]],
      ks_pc_feat_ind = Some [[0, 1, 2], [1, 2, 3], [2, 3, 1]]\<rparr> 1 = Inr (0, 0) \<and>
   clus_channel_info
     \<lparr>ks_clu = [0, 0, 2, 0],
      ks_temps = [[[1, 2, 0, 0], [0, - 3, 1, 0]], [[0, 0, 0, 0], [0, 0, 0, 0]],
                  [[0, 0, 5, 1], [0, 0, 1, 1]]],
      ks_pc_feat = Some [[[1, 0, 0], [0, 0, 0], [0, 0, 0]], [[1, 0, 0], [0, 1, 0], [0, 0, 0]],
                         [[1, 1, 0], [0, 0, 0], [0, 0, 0]], [[1, 0, 0], [0, 0, 0], [0, 0, 0]]],
      ks_pc_feat_ind = Some [[0, 1, 2], [1, 2, 3], [2, 3, 1]]\<rparr> [0, 1, 2] =
     Inr ([0, 0, 2], [0, 0, 3]) \<and>
   [0, 0, 2 :: int] ! 1 = 0 \<and> [0, 0, 3 :: int] ! 1 = 0 \<and>
   clus_channel_info
     \<lparr>ks_clu = [0, 0, 2, 0], ks_temps = [], ks_pc_feat = None, ks_pc_feat_ind = None\<rparr>
     [7, 1, 5] = Inr ([0, 0, 0], [0, 0, 0])"
  using zero_spike_unit_sentinel
          [of 1 "\<lparr>ks_clu = [0, 0, 2, 0],
      ks_temps = [[[1, 2, 0, 0], [0, - 3, 1, 0]], [[0, 0, 0, 0], [0, 0, 0, 0]],
                  [[0, 0, 5, 1], [0, 0, 1, 1]]],
      ks_pc_feat = Some [[[1, 0, 0], [0, 0, 0], [0, 0, 0]], [[1, 0, 0], [0, 1, 0], [0, 0, 0]],
                         [[1, 1, 0], [0, 0, 0], [0, 0, 0]], [[1, 0, 0], [0, 0, 0], [0, 0, 0]]],
      ks_pc_feat_ind = Some [[0, 1, 2], [1, 2, 3], [2, 3, 1]]\<rparr>" "[0, 1, 2]"
              "[0, 0, 2]" "[0, 0, 3]"]
        zero_spike_unit_sentinel
          [of 1 "\<lparr>ks_clu = [0, 0, 2, 0], ks_temps = [], ks_pc_feat = None,
                   ks_pc_feat_ind = None\<rparr>" "[7, 1, 5]" "[]" "[]"]
        clus_channel_info_example
  by (simp add: numeral_3_eq_3)

section \<open>Deduplication keeps the first row of every class\<close>

lemma first_index_less:
  "x \<in> set xs \<Longrightarrow> first_index xs x < length xs"
  by (induction xs) (auto simp: first_index_def)

lemma first_index_nth:
  "x \<in> set xs \<Longrightarrow> xs ! first_index xs x = x"
  by (induction xs) (auto simp: first_index_def)

lemma first_index_before:
  "j < first_index xs x \<Longrightarrow> xs ! j \<noteq> x"
proof (induction xs arbitrary: j)
  case Nil
  then show ?case by (simp add: first_index_def)
next
  case (Cons a xs)
  show ?case
  proof (cases j)
    case 0
    then show ?thesis using Cons.prems by (auto simp: first_index_def split: if_splits)
  next
    case (Suc k)
    then have "k < first_index xs x"
      using Cons.prems by (auto simp: first_index_def split: if_splits)
    then show ?thesis using Cons.IH Suc by simp
  qed
qed

lemma first_index_le:
  "i < length xs \<Longrightarrow> first_index xs (xs ! i) \<le> i"
proof (rule ccontr)
  assume i: "i < length xs" and "\<not> first_index xs (xs ! i) \<le> i"
  then have "i < first_index xs (xs ! i)" by simp
  then have "xs ! i \<noteq> xs ! i" by (rule first_index_before)
  then show False by simp
qed

lemma first_index_image:
  "first_index xs ` set xs = {i. i < length xs \<and> (\<forall>j < i. xs ! j \<noteq> xs ! i)}"
proof (intro set_eqI iffI)
  fix i assume "i \<in> first_index xs ` set xs"
  then obtain x where x: "x \<in> set xs" "i = first_index xs x" by auto
  have "\<forall>j < first_index xs x. xs ! j \<noteq> xs ! first_index xs x"
  proof (intro allI impI)
    fix j assume "j < first_index xs x"
    then have "xs ! j \<noteq> x" by (rule first_index_before)
    then show "xs ! j \<noteq> xs ! first_index xs x"
      by (simp add: first_index_nth [OF x(1)])
  qed
  then show "i \<in> {i. i < length xs \<and> (\<forall>j < i. xs ! j \<noteq> xs ! i)}"
    using first_index_less [OF x(1)] by (simp only: x(2) mem_Collect_eq simp_thms)
next
  fix i assume "i \<in> {i. i < length xs \<and> (\<forall>j < i. xs ! j \<noteq> xs ! i)}"
  then have i: "i < length xs" "\<forall>j < i. xs ! j \<noteq> xs ! i" by auto
  have le: "first_index xs (xs ! i) \<le> i" using i(1) by (rule first_index_le)
  have eq: "xs ! first_index xs (xs ! i) = xs ! i"
    using i(1) by (simp add: first_index_nth)
  have e: "first_index xs (xs ! i) = i"
  proof (rule ccontr)
    assume "first_index xs (xs ! i) \<noteq> i"
    with le have "first_index xs (xs ! i) < i" by simp
    with i(2) have "xs ! first_index xs (xs ! i) \<noteq> xs ! i" by blast
    with eq show False by simp
  qed
  have "xs ! i \<in> set xs" using i(1) by simp
  then have "first_index xs (xs ! i) \<in> first_index xs ` set xs" by (rule imageI)
  then show "i \<in> first_index xs ` set xs" by (simp only: e)
qed

lemma first_index_inj: "inj_on (first_index xs) (set xs)"
proof (rule inj_onI)
  fix x y assume x: "x \<in> set xs" and y: "y \<in> set xs"
    and e: "first_index xs x = first_index xs y"
  have "x = xs ! first_index xs x" using first_index_nth [OF x] by (rule sym)
  also have "\<dots> = xs ! first_index xs y" by (simp only: e)
  also have "\<dots> = y" by (rule first_index_nth [OF y])
  finally show "x = y" .
qed

lemma sorted_unique_index:
  "sort (unique_index keys) =
     filter (\<lambda>i. \<forall>j < i. keys ! j \<noteq> keys ! i) [0..<length keys]"
proof (rule sorted_distinct_set_unique)
  show "sorted (sort (unique_index keys))" by simp
  show "distinct (sort (unique_index keys))"
    using first_index_inj [of keys]
    by (simp add: unique_index_def distinct_map)
  show "sorted (filter (\<lambda>i. \<forall>j < i. keys ! j \<noteq> keys ! i) [0..<length keys])"
    by (simp add: sorted_wrt_filter)
  show "distinct (filter (\<lambda>i. \<forall>j < i. keys ! j \<noteq> keys ! i) [0..<length keys])"
    by simp
  have "set (sort (unique_index keys)) = first_index keys ` set keys"
    by (simp add: unique_index_def)
  also have "\<dots> = {i. i < length keys \<and> (\<forall>j < i. keys ! j \<noteq> keys ! i)}"
    by (rule first_index_image)
  also have "\<dots> = set (filter (\<lambda>i. \<forall>j < i. keys ! j \<noteq> keys ! i) [0..<length keys])"
    by auto
  finally show "set (sort (unique_index keys)) =
          set (filter (\<lambda>i. \<forall>j < i. keys ! j \<noteq> keys ! i) [0..<length keys])" .
qed

lemma dedup_rows_first_occurrences:
  "dedup_rows rows =
     map (\<lambda>i. rows ! i)
       (filter (\<lambda>i. \<forall>j < i. nan_to_zero (rows ! j) \<noteq> nan_to_zero (rows ! i)) [0..<length rows])"
proof -
  have "filter (\<lambda>i. \<forall>j < i. map nan_to_zero rows ! j \<noteq> map nan_to_zero rows ! i)
          [0..<length rows] =
        filter (\<lambda>i. \<forall>j < i. nan_to_zero (rows ! j) \<noteq> nan_to_zero (rows ! i)) [0..<length rows]"
    by (rule filter_cong) auto
  then show ?thesis
    unfolding dedup_rows_def Let_def sorted_unique_index
    by (simp only: length_map)
qed

lemma map_nth_filter_nths:
  "map (\<lambda>i. xs ! i) (filter P [0..<length xs]) = nths xs {i. P i}"
proof -
  have "zip xs [0..<length xs] = map (\<lambda>i. (xs ! i, i)) [0..<length xs]"
    by (rule nth_equalityI) simp_all
  then show ?thesis
    by (simp add: nths_def filter_map comp_def)
qed

lemma dedup_rows_subseq: "subseq (dedup_rows rows) rows"
  unfolding dedup_rows_first_occurrences map_nth_filter_nths subseq_conv_nths
  by blast


lemma dedup_rows_keys:
  "mset (map nan_to_zero (dedup_rows rows)) = mset (remdups (map nan_to_zero rows))"
proof -
  define keys where "keys = map nan_to_zero rows"
  have lt: "\<forall>i \<in> set (sort (unique_index keys)). i < length rows"
    by (simp add: unique_index_def keys_def first_index_less [of _ "map nan_to_zero rows", simplified])
  have "map nan_to_zero (dedup_rows rows) = map (\<lambda>i. keys ! i) (sort (unique_index keys))"
    using lt by (simp add: dedup_rows_def Let_def keys_def)
  then have "mset (map nan_to_zero (dedup_rows rows)) =
               image_mset (\<lambda>i. keys ! i) (mset (unique_index keys))"
    by simp
  also have "\<dots> = mset (map (\<lambda>i. keys ! i) (unique_index keys))"
    by simp
  also have "map (\<lambda>i. keys ! i) (unique_index keys) = map (\<lambda>k. k) (sort (remdups keys))"
    unfolding unique_index_def map_map comp_def
    by (rule map_cong) (simp_all add: first_index_nth)
  finally show ?thesis by (simp add: keys_def)
qed

lemma dedup_rows_Nil: "dedup_rows [] = []"
  by (simp add: dedup_rows_def unique_index_def)

text \<open>
  Claim C2. Two rows are in one class when they are equal after their missing entries
  are replaced by 0. Deduplication returns the rows at exactly those positions where a
  class occurs for the first time, in increasing position: so it keeps one row of every
  class and no class twice, the kept row is the first of its class, and the kept rows
  stand in their original relative order.
\<close>

theorem dedup_rows_keeps_first:
  "dedup_rows rows =
     map (\<lambda>i. rows ! i)
       (filter (\<lambda>i. \<forall>j < i. nan_to_zero (rows ! j) \<noteq> nan_to_zero (rows ! i)) [0..<length rows]) \<and>
   mset (map nan_to_zero (dedup_rows rows)) = mset (remdups (map nan_to_zero rows)) \<and>
   distinct (map nan_to_zero (dedup_rows rows)) \<and>
   nan_to_zero ` set (dedup_rows rows) = nan_to_zero ` set rows \<and>
   subseq (dedup_rows rows) rows"
proof -
  have m: "mset (map nan_to_zero (dedup_rows rows)) = mset (remdups (map nan_to_zero rows))"
    by (rule dedup_rows_keys)
  have d: "distinct (map nan_to_zero (dedup_rows rows))"
    using mset_eq_imp_distinct_iff [OF m] by simp
  have "set (map nan_to_zero (dedup_rows rows)) = set (remdups (map nan_to_zero rows))"
    using m by (rule mset_eq_setD)
  then have s: "nan_to_zero ` set (dedup_rows rows) = nan_to_zero ` set rows"
    by simp
  show ?thesis
    using m d s dedup_rows_subseq [of rows] dedup_rows_first_occurrences [of rows]
    by blast
qed

lemma dedup_rows_example:
  "dedup_rows [[Some 3, None], [Some 1, Some 2], [Some 3, Some 0], [Some 1, Some 2],
               [None, None], [Some 0, Some 0]] =
     [[Some 3, None], [Some 1, Some 2], [None, None]]"
  by code_simp

theorem dedup_rows_keeps_first_witness:
  "dedup_rows [[Some 3, None], [Some 1, Some 2], [Some 3, Some 0], [Some 1, Some 2],
               [None, None], [Some 0, Some 0]] =
     [[Some 3, None], [Some 1, Some 2], [None, None]] \<and>
   distinct (map nan_to_zero [[Some 3, None], [Some 1, Some 2], [None, None]]) \<and>
   nan_to_zero ` set [[Some 3, None], [Some 1, Some 2], [None, None]] =
     nan_to_zero ` set [[Some 3, None], [Some 1, Some 2], [Some 3, Some 0], [Some 1, Some 2],
                        [None, None], [Some 0, Some 0]] \<and>
   subseq [[Some 3, None], [Some 1, Some 2], [None, None :: int option]]
     [[Some 3, None], [Some 1, Some 2], [Some 3, Some 0], [Some 1, Some 2],
      [None, None], [Some 0, Some 0]]"
proof -
  have e: "dedup_rows [[Some 3, None], [Some 1, Some 2], [Some 3, Some 0], [Some 1, Some 2],
               [None, None], [Some 0, Some 0]] =
     [[Some 3, None], [Some 1, Some 2], [None, None]]"
    by (rule dedup_rows_example)
  from dedup_rows_keeps_first
          [of "[[Some 3, None], [Some 1, Some 2], [Some 3, Some 0], [Some 1, Some 2],
                [None, None], [Some 0, Some 0]]"]
  have "distinct (map nan_to_zero (dedup_rows [[Some 3, None], [Some 1, Some 2],
               [Some 3, Some 0], [Some 1, Some 2], [None, None], [Some 0, Some 0]])) \<and>
        nan_to_zero ` set (dedup_rows [[Some 3, None], [Some 1, Some 2],
               [Some 3, Some 0], [Some 1, Some 2], [None, None], [Some 0, Some 0]]) =
          nan_to_zero ` set [[Some 3, None], [Some 1, Some 2], [Some 3, Some 0],
               [Some 1, Some 2], [None, None], [Some 0, Some 0]] \<and>
        subseq (dedup_rows [[Some 3, None], [Some 1, Some 2],
               [Some 3, Some 0], [Some 1, Some 2], [None, None], [Some 0, Some 0]])
          [[Some 3, None], [Some 1, Some 2], [Some 3, Some 0],
               [Some 1, Some 2], [None, None], [Some 0, Some 0]]"
    by blast
  then show ?thesis
    unfolding e by blast
qed

section \<open>The filter by minimum recording count\<close>

text \<open>
  Claim C3. The final filter keeps exactly the rows with at least \<open>min_recordings\<close>
  non-missing entries, in their order; the table \<open>_run_stitching\<close> returns is that
  filter applied to the deduplicated rows, so each of its rows has at least
  \<open>min_recordings\<close> non-missing entries.
\<close>

theorem final_table_min_recordings:
  "(\<forall>row \<in> set (filter_min_recs m u). m \<le> int (valid_count row)) \<and>
   (\<forall>row \<in> set u. (row \<in> set (filter_min_recs m u)) = (m \<le> int (valid_count row))) \<and>
   subseq (filter_min_recs m u) u \<and>
   (run_stitching cc w s = Inr table \<longrightarrow>
      (\<exists>prediction_list.
         efold (stitch_channel cc w s) (uni_chans s) [] = Inr prediction_list \<and>
         table = filter_min_recs (min_recs s) (dedup_rows prediction_list)) \<and>
      (\<forall>row \<in> set table. min_recs s \<le> int (valid_count row)))"
  by (auto simp: filter_min_recs_def run_stitching_def ebind_def dedup_rows_Nil
        split: sum.splits if_splits)

theorem final_table_min_recordings_witness:
  "filter_min_recs 2 [[Some 3, None], [Some 1, Some 2], [None, None]] = [[Some 1, Some 2]] \<and>
   (2 :: int) \<le> int (valid_count [Some 1, Some 2]) \<and>
   \<not> (2 :: int) \<le> int (valid_count [Some 3, None]) \<and>
   [Some 3, None] \<notin> set (filter_min_recs 2 [[Some 3, None], [Some 1, Some 2], [None, None]])"
  using final_table_min_recordings
          [of 2 "[[Some 3, None], [Some 1, Some 2], [None, None]]"]
  by (simp add: filter_min_recs_def valid_count_def)

section \<open>The stitching loop picks the best candidate and thresholds it\<close>



























section \<open>Configuration errors\<close>

lemma select_info_invalid:
  "ct \<noteq> ''All'' \<Longrightarrow> ct \<noteq> ''Good'' \<Longrightarrow> ct \<noteq> ''Isolated'' \<Longrightarrow> select_info ct f = Inl
     (case f of NoFile \<Rightarrow> FileNotFoundError | _ \<Rightarrow> ValueError)"
  by (cases f) (simp_all add: select_info_def)

lemma load_cluster_info_invalid:
  assumes "cluster_type s \<noteq> ''All''" "cluster_type s \<noteq> ''Good''"
      "cluster_type s \<noteq> ''Isolated''" "recs s \<noteq> []"
  shows "\<exists>e. load_cluster_info w s = Inl e"
proof -
  obtain r rs where r: "recs s = r # rs" using assms(4) by (cases "recs s") auto
  show ?thesis
    using select_info_invalid [OF assms(1,2,3), of "npclu_files w r (gflag s)"]
    by (simp add: load_cluster_info_def r load_rec_def ebind_def)
qed

text \<open>
  The exceptions of the constructor and of the loading loop that have nothing to do with
  the cluster type: no recording for a session that is not grouped, an empty table in a
  MATLAB file, and a Kilosort directory that cannot be loaded.
\<close>

lemma new_stitcher_no_recording: "new_stitcher cfg [] False ct = Inl IndexError"
  by (simp add: new_stitcher_def rec_name_str_def py_get_def ebind_def)

lemma select_info_empty_mat_table:
  "select_info ''All'' (MatFile (Some []) ks_clu_info iso_clu_info) = Inr NoColumns"
  by (simp add: select_info_def mat_table_def mat_array_def)

lemma load_rec_no_columns:
  assumes "select_info (cluster_type s) (npclu_files w r (gflag s)) = Inr NoColumns"
  shows "\<exists>e. load_rec w r (s, isos) = Inl e"
  using assms by (simp add: load_rec_def ebind_def split: sum.splits)

lemma load_rec_ks_dir_raises:
  assumes "select_info (cluster_type s) (npclu_files w r (gflag s)) = Inr t"
      and "chan_map s = None" and "load_ks_dir w (rec_str s) = Inl e"
  shows "load_rec w r (s, isos) = Inl e"
  using assms by (cases t) (simp_all add: load_rec_def load_chan_map_def ebind_def Let_def)

lemma ex_new:
  "new_stitcher cfg [''007'', ''009''] True ct = Inr (ex_fresh cfg ct)"
  by (simp add: new_stitcher_def rec_name_str_def group_flag_str_def ex_fresh_def ebind_def)

text \<open>
  A stitcher that \<open>_load_cluster_info\<close> has returned holds one table per recording and,
  when there is a recording, a channel map.
\<close>

lemma load_chan_map_loaded:
  "load_chan_map w s = Inr s1 \<Longrightarrow>
   recs s1 = recs s \<and> clu_info_per_rec s1 = clu_info_per_rec s \<and> chan_map s1 \<noteq> None"
  by (auto simp add: load_chan_map_def ebind_def split: option.splits sum.splits)

lemma load_rec_loaded:
  assumes "load_rec w r (s, isos0) = Inr (s', isos)"
  shows "recs s' = recs s \<and>
         length (clu_info_per_rec s') = Suc (length (clu_info_per_rec s)) \<and>
         chan_map s' \<noteq> None"
proof -
  from assms obtain info where
    "load_chan_map w (s\<lparr>clu_info_per_rec := clu_info_per_rec s @ [info]\<rparr>) = Inr s'"
    by (auto simp add: load_rec_def ebind_def Let_def split: sum.splits info_array.splits)
  then show ?thesis
    using load_chan_map_loaded
            [of w "s\<lparr>clu_info_per_rec := clu_info_per_rec s @ [info]\<rparr>" s']
    by simp
qed

lemma load_fold_loaded:
  assumes "efold (load_rec w) rs (s, isos0) = Inr (s', isos)"
  shows "recs s' = recs s \<and>
         length (clu_info_per_rec s') = length (clu_info_per_rec s) + length rs \<and>
         (rs \<noteq> [] \<longrightarrow> chan_map s' \<noteq> None) \<and> (rs = [] \<longrightarrow> isos = isos0)"
  using assms
proof (induction rs arbitrary: s isos0)
  case Nil
  then show ?case by simp
next
  case (Cons r rs)
  from Cons.prems obtain s1 isos1 where
    s1: "load_rec w r (s, isos0) = Inr (s1, isos1)"
      and f: "efold (load_rec w) rs (s1, isos1) = Inr (s', isos)"
    by (auto simp add: ebind_def split: sum.splits)
  note a = load_rec_loaded [OF s1]
  note b = Cons.IH [OF f]
  have cm: "chan_map s' \<noteq> None"
  proof (cases "rs = []")
    case True
    then show ?thesis using f a by simp
  next
    case False
    then show ?thesis using b by simp
  qed
  show ?case using a b cm by simp
qed

lemma load_cluster_info_ok:
  assumes "load_cluster_info w s = Inr s'" and "clu_info_per_rec s = []"
  shows "num_recs s' \<le> length (clu_info_per_rec s') \<and>
         (chan_map s' \<noteq> None \<or> uni_chans s' = [])"
proof -
  from assms(1) obtain s1 isos where
    f: "efold (load_rec w) (recs s) (s, []) = Inr (s1, isos)"
    and s': "s' = s1\<lparr>uni_chans := sort (remdups (concat isos))\<rparr>"
    by (auto simp add: load_cluster_info_def ebind_def split: sum.splits)
  note a = load_fold_loaded [OF f]
  show ?thesis
    using a assms(2) by (cases "recs s = []") (simp_all add: s' num_recs_def)
qed

text \<open>The loading does not read the thresholds.\<close>

lemma load_chan_map_thresholds:
  "load_chan_map w (s\<lparr>fr_threshold := a, wf_threshold := b\<rparr>) =
     ebind (load_chan_map w s) (\<lambda>s'. Inr (s'\<lparr>fr_threshold := a, wf_threshold := b\<rparr>))"
  by (simp add: load_chan_map_def ebind_def split: option.splits sum.splits)

lemma load_rec_thresholds:
  "load_rec w r (s\<lparr>fr_threshold := a, wf_threshold := b\<rparr>, isos) =
     ebind (load_rec w r (s, isos))
       (\<lambda>(s', isos'). Inr (s'\<lparr>fr_threshold := a, wf_threshold := b\<rparr>, isos'))"
proof (cases "select_info (cluster_type s) (npclu_files w r (gflag s))")
  case (Inl e)
  then show ?thesis by (simp add: load_rec_def ebind_def)
next
  case (Inr selected_info)
  show ?thesis
  proof (cases selected_info)
    case NoColumns
    then show ?thesis
      using Inr
      by (simp add: load_rec_def load_chan_map_thresholds ebind_def split: sum.splits)
  next
    case (Rows info)
    define s1 where "s1 = s\<lparr>clu_info_per_rec := clu_info_per_rec s @ [info]\<rparr>"
    have u: "s\<lparr>fr_threshold := a, wf_threshold := b,
               clu_info_per_rec := clu_info_per_rec s @ [info]\<rparr> =
             s1\<lparr>fr_threshold := a, wf_threshold := b\<rparr>"
      by (simp add: s1_def)
    have l: "load_rec w r (s, isos) =
               ebind (load_chan_map w s1) (\<lambda>s2.
                 Inr (s2, isos @ [map (\<lambda>ci. the_chan_map s2 ! nat ci)
                     (filter (\<lambda>ci. 0 \<le> ci \<and> ci < int (length (the_chan_map s2)))
                        (map snd info))]))"
      using Inr Rows by (simp add: load_rec_def ebind_def Let_def s1_def)
    have "load_rec w r (s\<lparr>fr_threshold := a, wf_threshold := b\<rparr>, isos) =
               ebind (load_chan_map w (s1\<lparr>fr_threshold := a, wf_threshold := b\<rparr>)) (\<lambda>s2.
                 Inr (s2, isos @ [map (\<lambda>ci. the_chan_map s2 ! nat ci)
                     (filter (\<lambda>ci. 0 \<le> ci \<and> ci < int (length (the_chan_map s2)))
                        (map snd info))]))"
      using Inr Rows by (simp add: load_rec_def Let_def ebind_def u)
    also have "\<dots> = ebind (load_rec w r (s, isos))
       (\<lambda>(s', isos'). Inr (s'\<lparr>fr_threshold := a, wf_threshold := b\<rparr>, isos'))"
      unfolding l load_chan_map_thresholds
      by (cases "load_chan_map w s1") (simp_all add: ebind_def the_chan_map_def)
    finally show ?thesis .
  qed
qed

lemma load_fold_thresholds:
  "efold (load_rec w) rs (s\<lparr>fr_threshold := a, wf_threshold := b\<rparr>, isos) =
     ebind (efold (load_rec w) rs (s, isos))
       (\<lambda>(s', isos'). Inr (s'\<lparr>fr_threshold := a, wf_threshold := b\<rparr>, isos'))"
proof (induction rs arbitrary: s isos)
  case Nil
  show ?case by (simp add: ebind_def)
next
  case (Cons r rs)
  show ?case
  proof (cases "load_rec w r (s, isos)")
    case (Inl e)
    then show ?thesis by (simp add: load_rec_thresholds ebind_def)
  next
    case (Inr p)
    obtain s1 isos1 where p: "p = (s1, isos1)" by (cases p) auto
    show ?thesis
      using Inr p Cons.IH [of s1 isos1] by (simp add: load_rec_thresholds ebind_def)
  qed
qed

lemma load_cluster_info_thresholds:
  "load_cluster_info w (s\<lparr>fr_threshold := a, wf_threshold := b\<rparr>) =
     ebind (load_cluster_info w s) (\<lambda>s'. Inr (s'\<lparr>fr_threshold := a, wf_threshold := b\<rparr>))"
proof (cases "efold (load_rec w) (recs s) (s, [])")
  case (Inl e)
  then show ?thesis
    using load_fold_thresholds [where w = w and rs = "recs s" and s = s and a = a and b = b and isos = "[]"]
    by (simp add: load_cluster_info_def ebind_def)
next
  case (Inr p)
  obtain s1 isos1 where p: "p = (s1, isos1)" by (cases p) auto
  show ?thesis
    using Inr p load_fold_thresholds [where w = w and rs = "recs s" and s = s and a = a and b = b and isos = "[]"]
    by (simp add: load_cluster_info_def ebind_def)
qed

text \<open>
  Claim C9, as amended. Running the stitcher on at least one recording with a
  cluster-type filter other than \<open>All\<close>, \<open>Good\<close> or \<open>Isolated\<close> raises, in the validation
  of the data root or in \<open>_load_cluster_info\<close>, so before any row is produced. The
  thresholds are not validated: the validation of the data root does not involve them,
  and \<open>_load_cluster_info\<close> raises the same exception, or loads the same tables, whatever
  the two thresholds are.
\<close>

theorem run_configuration_errors:
  "(cluster_type s \<noteq> ''All'' \<and> cluster_type s \<noteq> ''Good'' \<and> cluster_type s \<noteq> ''Isolated'' \<and>
    recs s \<noteq> [] \<longrightarrow>
      (\<exists>e. run cc w s = Inl e \<and> (validate w = Inl e \<or> load_cluster_info w s = Inl e))) \<and>
   load_cluster_info w (s\<lparr>fr_threshold := a, wf_threshold := b\<rparr>) =
     ebind (load_cluster_info w s) (\<lambda>s'. Inr (s'\<lparr>fr_threshold := a, wf_threshold := b\<rparr>))"
proof (intro conjI impI)
  assume a: "cluster_type s \<noteq> ''All'' \<and> cluster_type s \<noteq> ''Good'' \<and>
             cluster_type s \<noteq> ''Isolated'' \<and> recs s \<noteq> []"
  then obtain e where e: "load_cluster_info w s = Inl e"
    using load_cluster_info_invalid [of s w] by blast
  show "\<exists>e. run cc w s = Inl e \<and> (validate w = Inl e \<or> load_cluster_info w s = Inl e)"
    using e by (cases "data_root_exists w") (simp_all add: run_def validate_def ebind_def)
next
  show "load_cluster_info w (s\<lparr>fr_threshold := a, wf_threshold := b\<rparr>) =
     ebind (load_cluster_info w s) (\<lambda>s'. Inr (s'\<lparr>fr_threshold := a, wf_threshold := b\<rparr>))"
    by (rule load_cluster_info_thresholds)
qed

theorem run_configuration_errors_witness:
  "cluster_type (ex_fresh ex_config ''Everything'') \<noteq> ''All'' \<and>
   cluster_type (ex_fresh ex_config ''Everything'') \<noteq> ''Good'' \<and>
   cluster_type (ex_fresh ex_config ''Everything'') \<noteq> ''Isolated'' \<and>
   recs (ex_fresh ex_config ''Everything'') \<noteq> [] \<and>
   (\<exists>e. run ex_corrcoef ex_world (ex_fresh ex_config ''Everything'') = Inl e \<and>
        (validate ex_world = Inl e \<or>
         load_cluster_info ex_world (ex_fresh ex_config ''Everything'') = Inl e)) \<and>
   run ex_corrcoef ex_world (ex_fresh ex_config ''Everything'') = Inl ValueError \<and>
   load_cluster_info ex_world
       ((ex_fresh ex_config ''All'')\<lparr>fr_threshold := Fin 2, wf_threshold := Fin (- 1)\<rparr>) =
     Inr (ex_stitcher\<lparr>fr_threshold := Fin 2, wf_threshold := Fin (- 1)\<rparr>)"
proof -
  have c: "cluster_type (ex_fresh ex_config ''Everything'') \<noteq> ''All''"
    "cluster_type (ex_fresh ex_config ''Everything'') \<noteq> ''Good''"
    "cluster_type (ex_fresh ex_config ''Everything'') \<noteq> ''Isolated''"
    "recs (ex_fresh ex_config ''Everything'') \<noteq> []"
    by (simp_all add: ex_fresh_def)
  have v: "run ex_corrcoef ex_world (ex_fresh ex_config ''Everything'') = Inl ValueError"
    by code_simp
  have l: "load_cluster_info ex_world (ex_fresh ex_config ''All'') = Inr ex_stitcher"
    by code_simp
  from run_configuration_errors
         [of "ex_fresh ex_config ''Everything''" ex_corrcoef ex_world] c
  have A: "\<exists>e. run ex_corrcoef ex_world (ex_fresh ex_config ''Everything'') = Inl e \<and>
        (validate ex_world = Inl e \<or>
         load_cluster_info ex_world (ex_fresh ex_config ''Everything'') = Inl e)"
    by blast
  from run_configuration_errors
         [where s = "ex_fresh ex_config ''All''" and w = ex_world
            and a = "Fin 2" and b = "Fin (- 1)"]
  have B: "load_cluster_info ex_world
       ((ex_fresh ex_config ''All'')\<lparr>fr_threshold := Fin 2, wf_threshold := Fin (- 1)\<rparr>) =
     Inr (ex_stitcher\<lparr>fr_threshold := Fin 2, wf_threshold := Fin (- 1)\<rparr>)"
    by (simp add: l ebind_def)
  show ?thesis
    using A B c v by blast
qed

text \<open>
  The claim as stated fails. Thresholds outside \<open>[0, 1]\<close> are not rejected: with
  \<open>fr_corr_threshold = 2\<close> and \<open>wf_corr_threshold = -1\<close> the run goes through and returns
  three rows. And with no recording (of a grouped session) the cluster type is never
  looked at, so an unknown one raises nothing.
\<close>

theorem run_thresholds_counterexample:
  "ebind (new_stitcher
            (ex_config\<lparr>fr_corr_threshold := Fin 2, wf_corr_threshold := Fin (- 1),
                        min_recordings := 1\<rparr>)
            [''007'', ''009''] True ''All'')
     (run ex_corrcoef ex_world) =
     Inr [[Some 5, None], [None, Some 7], [None, Some 8]] \<and>
   ebind (new_stitcher ex_config [] True ''Everything'') (run ex_corrcoef ex_world) = Inr []"
  by (rule conjI) code_simp+

end
